theory Spec2Isabelle
  imports Main "HOL-Library.Word"
begin

unbundle bit_operations_syntax

section \<open>Novatek NT35950 panel driver: data model\<close>

text \<open>
  The model follows \<^verbatim>\<open>drivers/gpu/drm/panel/panel-novatek-nt35950.c\<close>.
  Every call the driver makes into the kernel (DSI transfers, regulators, the reset GPIO,
  sleeps, log lines) is recorded as an event of a trace, in program order; the values
  those calls return come from an environment that sees the trace so far.
\<close>

type_synonym u8 = "8 word"
type_synonym ulong = "64 word"

text \<open>The kernel's \<^verbatim>\<open>BIT(n)\<close> macro, \<^verbatim>\<open>1UL << n\<close>.\<close>

definition BIT :: "nat \<Rightarrow> 'a::len word" where
  "BIT n = push_bit n 1"

definition MCS_CMD_MAUCCTR :: u8 where "MCS_CMD_MAUCCTR = 0xF0"
definition MCS_PARAM_SCALER_FUNCTION :: u8 where "MCS_PARAM_SCALER_FUNCTION = 0x58"
definition MCS_PARAM_DATA_COMPRESSION :: u8 where "MCS_PARAM_DATA_COMPRESSION = 0x90"
definition MCS_DATA_COMPRESSION_NONE :: u8 where "MCS_DATA_COMPRESSION_NONE = 0x00"
definition MCS_DATA_COMPRESSION_FBC :: u8 where "MCS_DATA_COMPRESSION_FBC = 0x02"
definition MCS_DATA_COMPRESSION_DSC :: u8 where "MCS_DATA_COMPRESSION_DSC = 0x03"
definition MCS_PARAM_DISP_OUTPUT_CTRL :: u8 where "MCS_PARAM_DISP_OUTPUT_CTRL = 0xb4"
definition MCS_DISP_OUT_SRAM_EN :: u8 where "MCS_DISP_OUT_SRAM_EN = BIT 0"
definition MCS_DISP_OUT_VIDEO_MODE :: u8 where "MCS_DISP_OUT_VIDEO_MODE = BIT 4"
definition MCS_PARAM_SPR_EN :: u8 where "MCS_PARAM_SPR_EN = 0xe3"
definition MCS_PARAM_SPR_MODE :: u8 where "MCS_PARAM_SPR_MODE = 0xef"
definition NT35950_VREG_MAX :: nat where "NT35950_VREG_MAX = 6"

text \<open>
  Constants of kernel headers that are not part of the driver file
  (\<^verbatim>\<open>drm_mipi_dsi.h\<close>, \<^verbatim>\<open>errno.h\<close>): the driver is parametrised by them.
  The errno fields hold the positive number, the driver negates it.
\<close>

record hdr =
  MIPI_DSI_MODE_VIDEO :: ulong
  MIPI_DSI_MODE_EOT_PACKET :: ulong
  MIPI_DSI_CLOCK_NON_CONTINUOUS :: ulong
  MIPI_DSI_MODE_LPM :: ulong
  MIPI_DSI_FMT_RGB888 :: nat
  ENOMEM :: int
  ENODEV :: int
  EPROBE_DEFER :: int

text \<open>\<^verbatim>\<open>struct mipi_dsi_device\<close>, the fields the driver touches.\<close>

record mipi_dsi_device =
  lanes :: nat
  format :: nat
  mode_flags :: ulong

record nt35950_panel_desc =
  model_name :: string
  dsi_info_type :: string
  dsi_info_channel :: nat
  num_lanes :: u8
  enable_sram :: bool
  is_video_mode :: bool
  is_dual_dsi :: bool

text \<open>
  \<^verbatim>\<open>struct nt35950\<close>. A pointer that may be \<^verbatim>\<open>NULL\<close> is an option; the two
  arrays are functions of the index. \<open>vregs i\<close> is the supply name of
  \<^verbatim>\<open>vregs[i]\<close>; the regulator behind \<^verbatim>\<open>vregs[i].consumer\<close> is identified with the
  index \<open>i\<close>.
\<close>

record nt35950 =
  dsi :: "nat \<Rightarrow> mipi_dsi_device option"
  vregs :: "nat \<Rightarrow> string"
  desc :: "nt35950_panel_desc option"
  prepared :: bool

datatype tear_mode = MIPI_DSI_DCS_TEAR_MODE_VBLANK | MIPI_DSI_DCS_TEAR_MODE_VHBLANK

text \<open>One transfer on a DSI link, named by the kernel function the driver calls.\<close>

datatype dcs_call =
  Write_buffer "u8 list"
  | Set_tear_on tear_mode
  | Set_tear_scanline nat
  | Exit_sleep_mode
  | Set_display_on
  | Set_display_off
  | Enter_sleep_mode

datatype event =
  Regulator_enable nat
  | Regulator_bulk_disable nat
  | Gpiod_set_value int
  | Usleep_range nat nat
  | Msleep nat
  | Dsi_xfer nat dcs_call
  | Dsi_attach nat
  | Drm_panel_add
  | Dev_err string "int list"

text \<open>
  The hardware and kernel state outside \<^verbatim>\<open>struct nt35950\<close>: the use count of each
  regulator, the level last written to the reset line, and the trace.
\<close>

record world =
  rails :: "nat \<Rightarrow> nat"
  reset_line :: int
  trace :: "event list"

record sys =
  nt :: nt35950
  hw :: world

text \<open>
  What the kernel answers: the return value of a transfer (a byte count or a negative
  errno) and of a regulator enable (0 or a negative errno), each as a function of the
  calls made so far. The driver keeps them in a C \<^verbatim>\<open>int\<close>; they are integers here, taken
  to lie in its range.
\<close>

record env =
  xfer_result :: "event list \<Rightarrow> nat \<Rightarrow> dcs_call \<Rightarrow> int"
  enable_result :: "event list \<Rightarrow> nat \<Rightarrow> int"

section \<open>Results, faults and sequencing\<close>

datatype fault = NullDeref

text \<open>
  A C function either returns a value in a new state, or stops at a \<^verbatim>\<open>NULL\<close>
  dereference; the fault keeps the state reached.
\<close>

type_synonym 'a result = "fault \<times> sys + 'a \<times> sys"
type_synonym 'a prog = "sys \<Rightarrow> 'a result"

definition retP :: "'a \<Rightarrow> 'a prog" where
  "retP v s = Inr (v, s)"

definition bindP :: "'a prog \<Rightarrow> ('a \<Rightarrow> 'b prog) \<Rightarrow> 'b prog" where
  "bindP m k s = (case m s of Inl f \<Rightarrow> Inl f | Inr (v, s') \<Rightarrow> k v s')"

fun result_sys :: "'a result \<Rightarrow> sys" where
  "result_sys (Inl (f, s)) = s"
| "result_sys (Inr (v, s)) = s"

fun result_ret :: "'a result \<Rightarrow> 'a option" where
  "result_ret (Inl (f, s)) = None"
| "result_ret (Inr (v, s)) = Some v"

fun is_fault :: "'a result \<Rightarrow> bool" where
  "is_fault (Inl x) = True"
| "is_fault (Inr x) = False"

fun is_xfer :: "event \<Rightarrow> bool" where
  "is_xfer (Dsi_xfer i c) = True"
| "is_xfer e = False"

section \<open>Kernel primitives\<close>

definition log_event :: "event \<Rightarrow> sys \<Rightarrow> sys" where
  "log_event e s = s\<lparr>hw := (hw s)\<lparr>trace := trace (hw s) @ [e]\<rparr>\<rparr>"

text \<open>
  Modelled from the spec: the command transport is not under src/. Section 6 gives it as
  \<^verbatim>\<open>write(endpoint, bytes) -> bytes_written | error\<close> with the convenience calls
  (enter/exit sleep, display on/off, tear on, tear scanline) each a single encoded
  command. A transfer through a \<^verbatim>\<open>NULL\<close> device handle dereferences it.
\<close>

definition mipi_dsi_xfer :: "env \<Rightarrow> nat \<Rightarrow> dcs_call \<Rightarrow> int prog" where
  "mipi_dsi_xfer E i c s =
     (case dsi (nt s) i of
        None \<Rightarrow> Inl (NullDeref, s)
      | Some d \<Rightarrow> Inr (xfer_result E (trace (hw s)) i c, log_event (Dsi_xfer i c) s))"

definition mipi_dsi_dcs_write_buffer :: "env \<Rightarrow> nat \<Rightarrow> u8 list \<Rightarrow> int prog" where
  "mipi_dsi_dcs_write_buffer E i d = mipi_dsi_xfer E i (Write_buffer d)"

text \<open>
  Modelled from the spec: the regulator subsystem is not under src/. Section 6 gives
  \<^verbatim>\<open>enable(handle) -> ok | error\<close> and \<^verbatim>\<open>bulk_disable(handles)\<close> (no error).
  A successful enable (return value 0) raises the regulator's use count, a failed one
  leaves it; a bulk disable lowers the use count of each of the first \<open>n\<close> regulators,
  not below 0.
\<close>

definition regulator_enable :: "env \<Rightarrow> nat \<Rightarrow> int prog" where
  "regulator_enable E i s =
     (let r = enable_result E (trace (hw s)) i;
          s' = log_event (Regulator_enable i) s
      in Inr (r, if r = 0
                 then s'\<lparr>hw := (hw s')\<lparr>rails := (rails (hw s'))(i := rails (hw s') i + 1)\<rparr>\<rparr>
                 else s'))"

definition regulator_bulk_disable :: "nat \<Rightarrow> unit prog" where
  "regulator_bulk_disable n s =
     (let s' = log_event (Regulator_bulk_disable n) s
      in Inr ((), s'\<lparr>hw := (hw s')\<lparr>rails :=
                 (\<lambda>i. if i < n then rails (hw s') i - 1 else rails (hw s') i)\<rparr>\<rparr>))"

text \<open>
  Modelled from the spec: reset control is \<^verbatim>\<open>set(handle, level)\<close>, no return value,
  and the waits are fixed blocking delays (sections 5 and 6).
\<close>

definition gpiod_set_value_cansleep :: "int \<Rightarrow> unit prog" where
  "gpiod_set_value_cansleep v s =
     (let s' = log_event (Gpiod_set_value v) s
      in Inr ((), s'\<lparr>hw := (hw s')\<lparr>reset_line := v\<rparr>\<rparr>))"

definition usleep_range :: "nat \<Rightarrow> nat \<Rightarrow> unit prog" where
  "usleep_range a b s = Inr ((), log_event (Usleep_range a b) s)"

definition msleep :: "nat \<Rightarrow> unit prog" where
  "msleep n s = Inr ((), log_event (Msleep n) s)"

definition dev_err :: "string \<Rightarrow> int list \<Rightarrow> unit prog" where
  "dev_err msg args s = Inr ((), log_event (Dev_err msg args) s)"

text \<open>\<^verbatim>\<open>nt->dsi[i]->mode_flags = f (nt->dsi[i]->mode_flags)\<close>\<close>

definition update_mode_flags :: "nat \<Rightarrow> (ulong \<Rightarrow> ulong) \<Rightarrow> unit prog" where
  "update_mode_flags i f s =
     (case dsi (nt s) i of
        None \<Rightarrow> Inl (NullDeref, s)
      | Some d \<Rightarrow>
          Inr ((), s\<lparr>nt := (nt s)\<lparr>dsi := (dsi (nt s))(i := Some (d\<lparr>mode_flags := f (mode_flags d)\<rparr>))\<rparr>\<rparr>))"

section \<open>The driver\<close>

definition nt35950_reset :: "unit prog" where
  "nt35950_reset =
     bindP (gpiod_set_value_cansleep 1) (\<lambda>_.
     bindP (usleep_range 12000 13000) (\<lambda>_.
     bindP (gpiod_set_value_cansleep 0) (\<lambda>_.
     bindP (usleep_range 300 400) (\<lambda>_.
     bindP (gpiod_set_value_cansleep 1) (\<lambda>_.
     usleep_range 12000 13000)))))"

definition nt35950_set_cmd2_page :: "env \<Rightarrow> u8 \<Rightarrow> int prog" where
  "nt35950_set_cmd2_page E page =
     (let mauc_cmd2_page = [MCS_CMD_MAUCCTR, 0x55, 0xaa, 0x52, 0x08, page]
      in mipi_dsi_dcs_write_buffer E 0 mauc_cmd2_page)"

text \<open>
  The macro \<^verbatim>\<open>dsi_dcs_write_seq\<close> returns from the enclosing function when the
  write fails; \<open>k\<close> is the rest of that function.
\<close>

definition dsi_dcs_write_seq :: "env \<Rightarrow> nat \<Rightarrow> u8 list \<Rightarrow> int prog \<Rightarrow> int prog" where
  "dsi_dcs_write_seq E i d k =
     bindP (mipi_dsi_dcs_write_buffer E i d) (\<lambda>ret. if ret < 0 then retP ret else k)"

definition nt35950_set_data_compression :: "env \<Rightarrow> u8 \<Rightarrow> int prog" where
  "nt35950_set_data_compression E comp_mode =
     (let cmd_data_compression = [MCS_PARAM_DATA_COMPRESSION, comp_mode]
      in mipi_dsi_dcs_write_buffer E 0 cmd_data_compression)"

definition nt35950_set_scaler :: "env \<Rightarrow> u8 \<Rightarrow> int prog" where
  "nt35950_set_scaler E scale_up =
     (let cmd_scaler = [MCS_PARAM_SCALER_FUNCTION, scale_up]
      in mipi_dsi_dcs_write_buffer E 0 cmd_scaler)"

definition nt35950_inject_black_image :: "env \<Rightarrow> int prog" where
  "nt35950_inject_black_image E =
     (let cmd0_black_img = [0x6f, 0x01];
          cmd1_black_img = [0xf3, 0x10];
          cmd_test = [0xff, 0xaa, 0x55, 0xa5, 0x80];
          test_sz = length cmd_test
      in bindP (mipi_dsi_dcs_write_buffer E 0 cmd_test) (\<lambda>ret. if ret < 0 then retP ret else
         bindP (mipi_dsi_dcs_write_buffer E 0 cmd0_black_img) (\<lambda>ret. if ret < 0 then retP ret else
         bindP (mipi_dsi_dcs_write_buffer E 0 cmd1_black_img) (\<lambda>ret. if ret < 0 then retP ret else
         mipi_dsi_dcs_write_buffer E 0 (cmd_test[test_sz - 1 := 0x00])))))"

definition dispout_byte :: "nt35950_panel_desc \<Rightarrow> u8" where
  "dispout_byte d =
     (let b = 0x00;
          b = (if is_video_mode d then b OR MCS_DISP_OUT_VIDEO_MODE else b);
          b = (if enable_sram d then b OR MCS_DISP_OUT_SRAM_EN else b)
      in b)"

definition nt35950_set_dispout :: "env \<Rightarrow> int prog" where
  "nt35950_set_dispout E s =
     (case desc (nt s) of
        None \<Rightarrow> Inl (NullDeref, s)
      | Some d \<Rightarrow> mipi_dsi_dcs_write_buffer E 0 [MCS_PARAM_DISP_OUTPUT_CTRL, dispout_byte d] s)"

definition nt35950_on :: "env \<Rightarrow> hdr \<Rightarrow> int prog" where
  "nt35950_on E K =
     bindP (update_mode_flags 0 (\<lambda>f. f OR MIPI_DSI_MODE_LPM K)) (\<lambda>_.
     bindP (update_mode_flags 1 (\<lambda>f. f OR MIPI_DSI_MODE_LPM K)) (\<lambda>_.
     bindP (nt35950_set_cmd2_page E 7) (\<lambda>ret. if ret < 0 then retP ret else
     dsi_dcs_write_seq E 0 [MCS_PARAM_SPR_EN, 0x01] (
     dsi_dcs_write_seq E 0 [MCS_PARAM_SPR_MODE, 0x01] (
     bindP (nt35950_set_cmd2_page E 0) (\<lambda>ret. if ret < 0 then retP ret else
     dsi_dcs_write_seq E 0 [0xc9, 0x01] (
     bindP (nt35950_set_data_compression E MCS_DATA_COMPRESSION_NONE) (\<lambda>ret. if ret < 0 then retP ret else
     bindP (nt35950_set_scaler E 1) (\<lambda>ret. if ret < 0 then retP ret else
     bindP (nt35950_set_dispout E) (\<lambda>ret. if ret < 0 then retP ret else
     dsi_dcs_write_seq E 0 [0xbd,
                            0x00, 0xac, 0x0c, 0x0c, 0x00,
                            0x01, 0x56, 0x09, 0x09, 0x01,
                            0x01, 0x0c, 0x0c, 0x00, 0xd9] (
     bindP (mipi_dsi_xfer E 0 (Set_tear_on MIPI_DSI_DCS_TEAR_MODE_VBLANK)) (\<lambda>ret. if ret < 0 then
       bindP (dev_err ''Failed to set tear on: %d'' [ret]) (\<lambda>_. retP ret) else
     bindP (mipi_dsi_xfer E 0 (Set_tear_scanline 0)) (\<lambda>ret. if ret < 0 then
       bindP (dev_err ''Failed to set tear scanline: %d'' [ret]) (\<lambda>_. retP ret) else
     bindP (nt35950_set_cmd2_page E 1) (\<lambda>ret. if ret < 0 then retP ret else
     dsi_dcs_write_seq E 0 [0xd4, 0x88, 0x88] (
     bindP (nt35950_inject_black_image E) (\<lambda>ret. if ret < 0 then retP ret else
     bindP (mipi_dsi_xfer E 0 Exit_sleep_mode) (\<lambda>ret. if ret < 0 then retP ret else
     bindP (msleep 120) (\<lambda>_.
     bindP (mipi_dsi_xfer E 0 Set_display_on) (\<lambda>ret. if ret < 0 then retP ret else
     bindP (msleep 120) (\<lambda>_.
     bindP (update_mode_flags 0 (\<lambda>f. f AND NOT (MIPI_DSI_MODE_LPM K))) (\<lambda>_.
     bindP (update_mode_flags 1 (\<lambda>f. f AND NOT (MIPI_DSI_MODE_LPM K))) (\<lambda>_.
     retP 0))))))))))))))))))))))"

definition nt35950_off :: "env \<Rightarrow> hdr \<Rightarrow> int prog" where
  "nt35950_off E K =
     bindP (mipi_dsi_xfer E 0 Set_display_off) (\<lambda>ret. if ret < 0 then
       bindP (dev_err ''Failed to set display off: %d'' [ret]) (\<lambda>_. retP ret) else
     bindP (usleep_range 10000 11000) (\<lambda>_.
     bindP (mipi_dsi_xfer E 0 Enter_sleep_mode) (\<lambda>ret. if ret < 0 then
       bindP (dev_err ''Failed to enter sleep mode: %d'' [ret]) (\<lambda>_. retP ret) else
     bindP (msleep 150) (\<lambda>_.
     bindP (update_mode_flags 0 (\<lambda>f. f OR MIPI_DSI_MODE_LPM K)) (\<lambda>_.
     bindP (update_mode_flags 1 (\<lambda>f. f OR MIPI_DSI_MODE_LPM K)) (\<lambda>_.
     retP 0))))))"

definition set_prepared :: "bool \<Rightarrow> unit prog" where
  "set_prepared b s = Inr ((), s\<lparr>nt := (nt s)\<lparr>prepared := b\<rparr>\<rparr>)"

definition nt35950_prepare :: "env \<Rightarrow> hdr \<Rightarrow> int prog" where
  "nt35950_prepare E K s =
     (if prepared (nt s) then retP 0 s
      else
       (bindP (regulator_enable E 0) (\<lambda>ret. if ret \<noteq> 0 then retP ret else
        bindP (usleep_range 2000 5000) (\<lambda>_.
        bindP (regulator_enable E 5) (\<lambda>ret. if ret \<noteq> 0 then retP ret else
        bindP (usleep_range 15000 18000) (\<lambda>_.
        bindP (regulator_enable E 3) (\<lambda>ret. if ret \<noteq> 0 then retP ret else
        bindP (regulator_enable E 4) (\<lambda>ret. if ret \<noteq> 0 then retP ret else
        bindP (usleep_range 12000 13000) (\<lambda>_.
        bindP (regulator_enable E 1) (\<lambda>ret. if ret \<noteq> 0 then retP ret else
        bindP (regulator_enable E 2) (\<lambda>ret. if ret \<noteq> 0 then retP ret else
        bindP (usleep_range 15000 16000) (\<lambda>_.
        bindP nt35950_reset (\<lambda>_.
        bindP (nt35950_on E K) (\<lambda>ret. if ret < 0 then
          bindP (dev_err ''Failed to initialize panel: %d'' [ret]) (\<lambda>_.
          bindP (regulator_bulk_disable NT35950_VREG_MAX) (\<lambda>_.
          retP ret)) else
        bindP (set_prepared True) (\<lambda>_.
        retP 0)))))))))))))) s)"

definition nt35950_unprepare :: "env \<Rightarrow> hdr \<Rightarrow> int prog" where
  "nt35950_unprepare E K s =
     (if \<not> prepared (nt s) then retP 0 s
      else
       (bindP (nt35950_off E K) (\<lambda>ret.
        bindP (if ret < 0 then dev_err ''Failed to un-initialize panel: %d'' [ret] else retP ()) (\<lambda>_.
        bindP (gpiod_set_value_cansleep 0) (\<lambda>_.
        bindP (regulator_bulk_disable NT35950_VREG_MAX) (\<lambda>_.
        bindP (set_prepared False) (\<lambda>_.
        retP 0)))))) s)"

subsection \<open>Construction\<close>

text \<open>
  What the kernel answers during \<^verbatim>\<open>nt35950_probe\<close>: whether the allocation fails,
  the return values of \<^verbatim>\<open>devm_regulator_bulk_get\<close> and of
  \<^verbatim>\<open>regulator_is_supported_voltage\<close> (by regulator index and range), the match
  data, the error of \<^verbatim>\<open>devm_gpiod_get\<close> if any, whether the remote node and its
  host are found, the device \<^verbatim>\<open>mipi_dsi_device_register_full\<close> returns, and the
  return values of \<^verbatim>\<open>drm_panel_of_backlight\<close> and \<^verbatim>\<open>mipi_dsi_attach\<close>.
\<close>

record probe_env =
  kzalloc_fails :: bool
  bulk_get_result :: int
  supported_voltage :: "nat \<Rightarrow> int \<Rightarrow> int \<Rightarrow> int"
  match_data :: "nt35950_panel_desc option"
  reset_gpio_err :: "int option"
  remote_node_found :: bool
  remote_host_found :: bool
  registered_dev :: "mipi_dsi_device option"
  backlight_result :: int
  attach_result :: "nat \<Rightarrow> int"

text \<open>The zeroed structure \<^verbatim>\<open>devm_kzalloc\<close> returns.\<close>

definition nt_zero :: nt35950 where
  "nt_zero = \<lparr>dsi = (\<lambda>i. None), vregs = (\<lambda>i. []), desc = None, prepared = False\<rparr>"

definition set_vreg_supply :: "nat \<Rightarrow> string \<Rightarrow> unit prog" where
  "set_vreg_supply i name s = Inr ((), s\<lparr>nt := (nt s)\<lparr>vregs := (vregs (nt s))(i := name)\<rparr>\<rparr>)"

definition set_desc :: "nt35950_panel_desc option \<Rightarrow> unit prog" where
  "set_desc d s = Inr ((), s\<lparr>nt := (nt s)\<lparr>desc := d\<rparr>\<rparr>)"

definition set_dsi :: "nat \<Rightarrow> mipi_dsi_device option \<Rightarrow> unit prog" where
  "set_dsi i d s = Inr ((), s\<lparr>nt := (nt s)\<lparr>dsi := (dsi (nt s))(i := d)\<rparr>\<rparr>)"

definition regulator_is_supported_voltage :: "probe_env \<Rightarrow> nat \<Rightarrow> int \<Rightarrow> int \<Rightarrow> int prog" where
  "regulator_is_supported_voltage P i min_uV max_uV = retP (supported_voltage P i min_uV max_uV)"

definition nt35950_sharp_init_vregs :: "probe_env \<Rightarrow> int prog" where
  "nt35950_sharp_init_vregs P =
     bindP (set_vreg_supply 0 ''vddio'') (\<lambda>_.
     bindP (set_vreg_supply 1 ''tvddio'') (\<lambda>_.
     bindP (set_vreg_supply 2 ''tavdd'') (\<lambda>_.
     bindP (set_vreg_supply 3 ''avdd'') (\<lambda>_.
     bindP (set_vreg_supply 4 ''avee'') (\<lambda>_.
     bindP (set_vreg_supply 5 ''dvdd'') (\<lambda>_.
     bindP (retP (bulk_get_result P)) (\<lambda>ret. if ret < 0 then
       bindP (dev_err ''Failed to get regulators: %d'' [ret]) (\<lambda>_. retP ret) else
     bindP (regulator_is_supported_voltage P 0 1750000 1950000) (\<lambda>ret. if ret = 0 then retP ret else
     bindP (regulator_is_supported_voltage P 1 1750000 1950000) (\<lambda>ret. if ret = 0 then retP ret else
     bindP (regulator_is_supported_voltage P 2 2800000 3300000) (\<lambda>ret. if ret = 0 then retP ret else
     bindP (regulator_is_supported_voltage P 3 5200000 5900000) (\<lambda>ret. if ret = 0 then retP ret else
     bindP (regulator_is_supported_voltage P 4 5200000 5900000) (\<lambda>ret. if ret = 0 then retP ret else
     regulator_is_supported_voltage P 5 1300000 1400000))))))))))))"

text \<open>
  The loop \<^verbatim>\<open>for (i = 0; i < n; i++)\<close> of \<^verbatim>\<open>nt35950_probe\<close>. It yields
  \<open>Some ret\<close> when its body returns from the probe, \<open>None\<close> when the loop ends.
\<close>

function probe_attach :: "probe_env \<Rightarrow> hdr \<Rightarrow> nat \<Rightarrow> nat \<Rightarrow> int option prog" where
  "probe_attach P K i n s =
     (if i < n then
        (case dsi (nt s) i of
           None \<Rightarrow> Inl (NullDeref, s)
         | Some dv \<Rightarrow>
            (case desc (nt s) of
               None \<Rightarrow> Inl (NullDeref, s)
             | Some d \<Rightarrow>
                (let dv1 = dv\<lparr>lanes := unat (num_lanes d),
                              format := MIPI_DSI_FMT_RGB888 K,
                              mode_flags := MIPI_DSI_MODE_EOT_PACKET K OR
                                            MIPI_DSI_CLOCK_NON_CONTINUOUS K OR
                                            MIPI_DSI_MODE_LPM K\<rparr>;
                     dv2 = (if is_video_mode d
                            then dv1\<lparr>mode_flags := mode_flags dv1 OR MIPI_DSI_MODE_VIDEO K\<rparr>
                            else dv1);
                     s1 = s\<lparr>nt := (nt s)\<lparr>dsi := (dsi (nt s))(i := Some dv2)\<rparr>\<rparr>;
                     s2 = log_event (Dsi_attach i) s1;
                     ret = attach_result P i
                 in if ret < 0
                    then Inr (Some ret,
                              log_event (Dev_err ''Failed to attach to DSI%d host: %d'' [int i, ret]) s2)
                    else probe_attach P K (i + 1) n s2)))
      else Inr (None, s))"
  by pat_completeness auto
termination
  by (relation "measure (\<lambda>(P, K, i, n, s). n - i)") auto

text \<open>
  Lines 492 to 525 of \<^verbatim>\<open>nt35950_probe\<close>, after the secondary link has been resolved;
  \<open>n\<close> is the number of links.
\<close>

definition probe_finish :: "probe_env \<Rightarrow> hdr \<Rightarrow> mipi_dsi_device \<Rightarrow> nat \<Rightarrow> int prog" where
  "probe_finish P K dsi0 n =
     bindP (set_dsi 0 (Some dsi0)) (\<lambda>_.
     bindP (retP (backlight_result P)) (\<lambda>ret. if ret \<noteq> 0 then
       bindP (dev_err ''Failed to get backlight'' [ret]) (\<lambda>_. retP ret) else
     bindP (\<lambda>s. Inr ((), log_event Drm_panel_add s)) (\<lambda>_.
     bindP (probe_attach P K 0 n) (\<lambda>r. case r of
         Some ret \<Rightarrow> retP ret
       | None \<Rightarrow>
           bindP (gpiod_set_value_cansleep 0) (\<lambda>_.
           retP 0)))))"

text \<open>
  Lines 458 to 490 of \<^verbatim>\<open>nt35950_probe\<close>: the match data, the reset line and, for a
  dual-link panel, the secondary link. \<open>readP\<close> reads \<^verbatim>\<open>*nt\<close>.
\<close>

definition readP :: "(nt35950 \<Rightarrow> 'a prog) \<Rightarrow> 'a prog" where
  "readP f s = f (nt s) s"

definition probe_resolve :: "probe_env \<Rightarrow> hdr \<Rightarrow> mipi_dsi_device \<Rightarrow> int prog" where
  "probe_resolve P K dsi0 =
     bindP (set_desc (match_data P)) (\<lambda>_.
     readP (\<lambda>n. case desc n of
        None \<Rightarrow> retP (- ENODEV K)
      | Some d \<Rightarrow>
         (case reset_gpio_err P of
            Some e \<Rightarrow> bindP (dev_err ''Failed to get reset-gpios: %d'' [e]) (\<lambda>_. retP e)
          | None \<Rightarrow>
             (if is_dual_dsi d then
                (if \<not> remote_node_found P then
                   bindP (dev_err ''Cannot get secondary DSI node.'' []) (\<lambda>_. retP (- ENODEV K))
                 else if \<not> remote_host_found P then
                   bindP (dev_err ''Cannot get secondary DSI host'' []) (\<lambda>_.
                     retP (- EPROBE_DEFER K))
                 else
                   bindP (set_dsi 1 (registered_dev P)) (\<lambda>_.
                   readP (\<lambda>n. case dsi n 1 of
                      None \<Rightarrow> bindP (dev_err ''Cannot get secondary DSI node'' [])
                                 (\<lambda>_. retP (- ENODEV K))
                    | Some r \<Rightarrow> probe_finish P K dsi0 2)))
              else probe_finish P K dsi0 1))))"

text \<open>
  \<^verbatim>\<open>nt35950_probe\<close> from its start: allocation, regulator set-up (whose outcome is
  only logged), then the rest.
\<close>

definition nt35950_probe :: "probe_env \<Rightarrow> hdr \<Rightarrow> mipi_dsi_device \<Rightarrow> world \<Rightarrow> int result" where
  "nt35950_probe P K dsi0 w =
     (if kzalloc_fails P then Inr (- ENOMEM K, \<lparr>nt = nt_zero, hw = w\<rparr>)
      else
       (bindP (nt35950_sharp_init_vregs P) (\<lambda>ret.
        bindP (if ret \<noteq> 0 \<and> ret \<noteq> - EPROBE_DEFER K
               then dev_err ''Regulator init failure: %d -- NO FAILURE: DEVELOPMENT MODE'' [ret]
               else retP ()) (\<lambda>_.
        probe_resolve P K dsi0)))
        \<lparr>nt = nt_zero, hw = w\<rparr>)"

subsection \<open>The supported panel and concrete instances\<close>

definition sharp_ls055d1sx04 :: nt35950_panel_desc where
  "sharp_ls055d1sx04 =
     \<lparr>model_name = ''Sharp LS055D1SX04'', dsi_info_type = ''LS055D1SX04'', dsi_info_channel = 0,
      num_lanes = 4, enable_sram = True, is_video_mode = False, is_dual_dsi = True\<rparr>"

text \<open>
  Modelled from the spec: the values of the header constants are not under src/ and the
  spec names the flags without their bits. This instance takes the bits mainline Linux
  gives them; it is used only to evaluate the driver on concrete inputs.
\<close>

definition linux_hdr :: hdr where
  "linux_hdr =
     \<lparr>MIPI_DSI_MODE_VIDEO = BIT 0, MIPI_DSI_MODE_EOT_PACKET = BIT 9,
      MIPI_DSI_CLOCK_NON_CONTINUOUS = BIT 10, MIPI_DSI_MODE_LPM = BIT 11,
      MIPI_DSI_FMT_RGB888 = 0, ENOMEM = 12, ENODEV = 19, EPROBE_DEFER = 517\<rparr>"

text \<open>
  Concrete inputs: an endpoint with given mode flags, an instance with one or two
  endpoints, a quiet world, environments in which chosen transfers fail with
  \<^verbatim>\<open>-EIO\<close> and chosen regulators with \<^verbatim>\<open>-EINVAL\<close>, and a probe environment
  in which everything but the regulators is in order (\<open>b\<close> is the answer of the bulk
  get, \<open>v\<close> that of every voltage check).
\<close>

definition endpoint :: "ulong \<Rightarrow> mipi_dsi_device" where
  "endpoint f = \<lparr>lanes = 4, format = 0, mode_flags = f\<rparr>"

definition world0 :: world where
  "world0 = \<lparr>rails = (\<lambda>i. 0), reset_line = 0, trace = []\<rparr>"

definition panel :: "nat \<Rightarrow> ulong \<Rightarrow> bool \<Rightarrow> sys" where
  "panel links f p =
     \<lparr>nt = \<lparr>dsi = (\<lambda>i. if i < links then Some (endpoint f) else None),
             vregs = (\<lambda>i. []),
             desc = Some (sharp_ls055d1sx04\<lparr>is_dual_dsi := (links = 2)\<rparr>),
             prepared = p\<rparr>,
      hw = world0\<rparr>"

fun xfer_ok :: "dcs_call \<Rightarrow> int" where
  "xfer_ok (Write_buffer d) = int (length d)"
| "xfer_ok c = 0"

definition test_env :: "dcs_call list \<Rightarrow> nat list \<Rightarrow> env" where
  "test_env bad_calls bad_rails =
     \<lparr>xfer_result = (\<lambda>h i c. if c \<in> set bad_calls then - 5 else xfer_ok c),
      enable_result = (\<lambda>h i. if i \<in> set bad_rails then - 22 else 0)\<rparr>"

definition test_probe_env :: "nt35950_panel_desc \<Rightarrow> int \<Rightarrow> int \<Rightarrow> probe_env" where
  "test_probe_env d b v =
     \<lparr>kzalloc_fails = False, bulk_get_result = b, supported_voltage = (\<lambda>i min_uV max_uV. v),
      match_data = Some d, reset_gpio_err = None, remote_node_found = True,
      remote_host_found = True, registered_dev = Some (endpoint 0),
      backlight_result = 0, attach_result = (\<lambda>i. 0)\<rparr>"

subsection \<open>Expected event sequences\<close>

text \<open>
  The power-up sequence of section 4.4 of the specification, in the units of the code
  (microseconds): rails by index in \<^verbatim>\<open>vregs\<close>, the settle delay after each group,
  then the reset pulse.
\<close>

definition power_up_sequence :: "event list" where
  "power_up_sequence =
     [Regulator_enable 0, Usleep_range 2000 5000,
      Regulator_enable 5, Usleep_range 15000 18000,
      Regulator_enable 3, Regulator_enable 4, Usleep_range 12000 13000,
      Regulator_enable 1, Regulator_enable 2, Usleep_range 15000 16000,
      Gpiod_set_value 1, Usleep_range 12000 13000,
      Gpiod_set_value 0, Usleep_range 300 400,
      Gpiod_set_value 1, Usleep_range 12000 13000]"

text \<open>
  The transfers and waits of a complete on-script, steps 2 to 12 of section 4.3 of the
  specification, with the bytes of the source; \<open>b\<close> is the display-output-control byte.
\<close>

definition on_sequence :: "u8 \<Rightarrow> event list" where
  "on_sequence b =
     [Dsi_xfer 0 (Write_buffer [0xF0, 0x55, 0xAA, 0x52, 0x08, 0x07]),
      Dsi_xfer 0 (Write_buffer [0xE3, 0x01]),
      Dsi_xfer 0 (Write_buffer [0xEF, 0x01]),
      Dsi_xfer 0 (Write_buffer [0xF0, 0x55, 0xAA, 0x52, 0x08, 0x00]),
      Dsi_xfer 0 (Write_buffer [0xC9, 0x01]),
      Dsi_xfer 0 (Write_buffer [0x90, 0x00]),
      Dsi_xfer 0 (Write_buffer [0x58, 0x01]),
      Dsi_xfer 0 (Write_buffer [0xB4, b]),
      Dsi_xfer 0 (Write_buffer [0xBD, 0x00, 0xAC, 0x0C, 0x0C, 0x00, 0x01, 0x56, 0x09, 0x09,
                                0x01, 0x01, 0x0C, 0x0C, 0x00, 0xD9]),
      Dsi_xfer 0 (Set_tear_on MIPI_DSI_DCS_TEAR_MODE_VBLANK),
      Dsi_xfer 0 (Set_tear_scanline 0),
      Dsi_xfer 0 (Write_buffer [0xF0, 0x55, 0xAA, 0x52, 0x08, 0x01]),
      Dsi_xfer 0 (Write_buffer [0xD4, 0x88, 0x88]),
      Dsi_xfer 0 (Write_buffer [0xFF, 0xAA, 0x55, 0xA5, 0x80]),
      Dsi_xfer 0 (Write_buffer [0x6F, 0x01]),
      Dsi_xfer 0 (Write_buffer [0xF3, 0x10]),
      Dsi_xfer 0 (Write_buffer [0xFF, 0xAA, 0x55, 0xA5, 0x00]),
      Dsi_xfer 0 Exit_sleep_mode, Msleep 120,
      Dsi_xfer 0 Set_display_on, Msleep 120]"

text \<open>
  "All six rail enables succeed": the six calls of \<open>nt35950_prepare\<close> to
  \<^verbatim>\<open>regulator_enable\<close>, each asked at the trace it is made at when the earlier ones
  have succeeded, return 0; \<open>h\<close> is the trace at the start of the call.
\<close>

definition rails_come_up :: "env \<Rightarrow> event list \<Rightarrow> bool" where
  "rails_come_up E h =
     (enable_result E h 0 = 0 \<and>
      enable_result E (h @ [Regulator_enable 0, Usleep_range 2000 5000]) 5 = 0 \<and>
      enable_result E (h @ [Regulator_enable 0, Usleep_range 2000 5000,
                            Regulator_enable 5, Usleep_range 15000 18000]) 3 = 0 \<and>
      enable_result E (h @ [Regulator_enable 0, Usleep_range 2000 5000,
                            Regulator_enable 5, Usleep_range 15000 18000,
                            Regulator_enable 3]) 4 = 0 \<and>
      enable_result E (h @ [Regulator_enable 0, Usleep_range 2000 5000,
                            Regulator_enable 5, Usleep_range 15000 18000,
                            Regulator_enable 3, Regulator_enable 4,
                            Usleep_range 12000 13000]) 1 = 0 \<and>
      enable_result E (h @ [Regulator_enable 0, Usleep_range 2000 5000,
                            Regulator_enable 5, Usleep_range 15000 18000,
                            Regulator_enable 3, Regulator_enable 4,
                            Usleep_range 12000 13000, Regulator_enable 1]) 2 = 0)"

section \<open>Relations between the state before and after a call\<close>

text \<open>\<open>frames R m\<close>: whatever \<open>m\<close> does, also when it faults, \<open>R\<close> relates the state before to the state after.\<close>

definition frames :: "(sys \<Rightarrow> sys \<Rightarrow> bool) \<Rightarrow> 'a prog \<Rightarrow> bool" where
  "frames R m = (\<forall>s. R s (result_sys (m s)))"

text \<open>
  What the command scripts leave alone: the rails, the reset line, \<open>prepared\<close>, the
  descriptor, the supply names and which endpoints exist; the trace only grows.
\<close>

definition script_rel :: "sys \<Rightarrow> sys \<Rightarrow> bool" where
  "script_rel s s' =
     (rails (hw s') = rails (hw s) \<and> reset_line (hw s') = reset_line (hw s) \<and>
      prepared (nt s') = prepared (nt s) \<and> desc (nt s') = desc (nt s) \<and>
      vregs (nt s') = vregs (nt s) \<and>
      (\<forall>i. (dsi (nt s') i = None) = (dsi (nt s) i = None)) \<and>
      (\<exists>tl. trace (hw s') = trace (hw s) @ tl))"

text \<open>The flag \<open>prepared\<close> is as before.\<close>

definition keeps_prepared :: "sys \<Rightarrow> sys \<Rightarrow> bool" where
  "keeps_prepared s s' = (prepared (nt s') = prepared (nt s))"

text \<open>\<open>hw_blind m\<close>: the return value of \<open>m\<close> and what it does to \<^verbatim>\<open>*nt\<close> depend on \<^verbatim>\<open>*nt\<close> only.\<close>

definition hw_blind :: "'a prog \<Rightarrow> bool" where
  "hw_blind m =
     (\<forall>s t. nt s = nt t \<longrightarrow>
        result_ret (m s) = result_ret (m t) \<and> nt (result_sys (m s)) = nt (result_sys (m t)))"

section \<open>Properties\<close>

declare probe_attach.simps [simp del]

lemmas prim_defs = retP_def bindP_def log_event_def mipi_dsi_xfer_def mipi_dsi_dcs_write_buffer_def
  regulator_enable_def regulator_bulk_disable_def gpiod_set_value_cansleep_def usleep_range_def
  msleep_def dev_err_def update_mode_flags_def set_prepared_def dsi_dcs_write_seq_def Let_def

lemmas mcs_defs = MCS_CMD_MAUCCTR_def MCS_PARAM_SCALER_FUNCTION_def MCS_PARAM_DATA_COMPRESSION_def
  MCS_DATA_COMPRESSION_NONE_def MCS_PARAM_DISP_OUTPUT_CTRL_def MCS_PARAM_SPR_EN_def
  MCS_PARAM_SPR_MODE_def NT35950_VREG_MAX_def

lemmas script_defs = nt35950_set_cmd2_page_def nt35950_set_data_compression_def
  nt35950_set_scaler_def nt35950_inject_black_image_def nt35950_set_dispout_def

lemmas fixture_defs = panel_def world0_def endpoint_def test_env_def linux_hdr_def BIT_def

subsection \<open>The command scripts only talk to the link\<close>

lemma script_rel_refl: "script_rel s s"
  by (simp add: script_rel_def)

lemma script_rel_trans: "script_rel s t \<Longrightarrow> script_rel t u \<Longrightarrow> script_rel s u"
  by (auto simp: script_rel_def)

lemma frames_retP: "frames script_rel (retP v)"
  by (simp add: frames_def retP_def script_rel_refl)

lemma frames_bindP:
  assumes "frames script_rel m" and "\<And>v. frames script_rel (k v)"
  shows "frames script_rel (bindP m k)"
  unfolding frames_def
proof
  fix s
  show "script_rel s (result_sys (bindP m k s))"
  proof (cases "m s")
    case (Inl a)
    with assms(1) show ?thesis
      by (cases a) (auto simp: frames_def bindP_def dest: spec [of _ s])
  next
    case (Inr b)
    obtain v s1 where b: "b = (v, s1)" by (cases b)
    from assms(1) Inr b have 1: "script_rel s s1"
      by (auto simp: frames_def dest: spec [of _ s])
    from assms(2) have 2: "script_rel s1 (result_sys (k v s1))"
      by (simp add: frames_def)
    from Inr b have "bindP m k s = k v s1" by (simp add: bindP_def)
    with script_rel_trans [OF 1 2] show ?thesis by simp
  qed
qed

lemma frames_if: "frames R a \<Longrightarrow> frames R b \<Longrightarrow> frames R (if c then a else b)"
  by simp

lemma frames_xfer: "frames script_rel (mipi_dsi_xfer E i c)"
  by (auto simp: frames_def mipi_dsi_xfer_def log_event_def script_rel_def split: option.splits)

lemma frames_write_buffer: "frames script_rel (mipi_dsi_dcs_write_buffer E i d)"
  by (simp add: mipi_dsi_dcs_write_buffer_def frames_xfer)

lemma frames_msleep: "frames script_rel (msleep n)"
  by (simp add: frames_def msleep_def log_event_def script_rel_def)

lemma frames_usleep: "frames script_rel (usleep_range a b)"
  by (simp add: frames_def usleep_range_def log_event_def script_rel_def)

lemma frames_dev_err: "frames script_rel (dev_err m a)"
  by (simp add: frames_def dev_err_def log_event_def script_rel_def)

lemma frames_umf: "frames script_rel (update_mode_flags i f)"
  by (auto simp: frames_def update_mode_flags_def script_rel_def split: option.splits)

lemma frames_set_dispout: "frames script_rel (nt35950_set_dispout E)"
  using frames_write_buffer [of E 0]
  by (auto simp: frames_def nt35950_set_dispout_def script_rel_refl split: option.splits)

lemmas frames_intros = frames_bindP frames_if frames_retP frames_xfer frames_write_buffer
  frames_msleep frames_usleep frames_dev_err frames_umf frames_set_dispout

lemma frames_on: "frames script_rel (nt35950_on E K)"
  unfolding nt35950_on_def dsi_dcs_write_seq_def nt35950_set_cmd2_page_def
    nt35950_set_data_compression_def nt35950_set_scaler_def nt35950_inject_black_image_def Let_def
  by (intro frames_intros)

lemma frames_off: "frames script_rel (nt35950_off E K)"
  unfolding nt35950_off_def
  by (intro frames_intros)

subsection \<open>The on-script\<close>

lemma on_ok:
  assumes ok: "\<And>h c. \<not> xfer_result E h 0 c < 0"
    and d0: "dsi (nt s) 0 = Some d0" and d1: "dsi (nt s) 1 = Some d1" and d: "desc (nt s) = Some d"
  shows "nt35950_on E K s =
      Inr (0, s\<lparr>nt := (nt s)\<lparr>dsi := (dsi (nt s))
                   (0 := Some (d0\<lparr>mode_flags := (mode_flags d0 OR MIPI_DSI_MODE_LPM K) AND NOT (MIPI_DSI_MODE_LPM K)\<rparr>),
                    1 := Some (d1\<lparr>mode_flags := (mode_flags d1 OR MIPI_DSI_MODE_LPM K) AND NOT (MIPI_DSI_MODE_LPM K)\<rparr>))\<rparr>,
              hw := (hw s)\<lparr>trace := trace (hw s) @ on_sequence (dispout_byte d)\<rparr>\<rparr>)"
  using ok d0 d1 d
  by (simp add: nt35950_on_def prim_defs script_defs mcs_defs on_sequence_def)

lemma on_single_link:
  assumes "dsi (nt s) 0 = Some d0" and "dsi (nt s) 1 = None"
  shows "nt35950_on E K s = Inl (NullDeref, s\<lparr>nt := (nt s)\<lparr>dsi := (dsi (nt s))
                   (0 := Some (d0\<lparr>mode_flags := mode_flags d0 OR MIPI_DSI_MODE_LPM K\<rparr>))\<rparr>\<rparr>)"
  using assms by (simp add: nt35950_on_def prim_defs)

lemma word_set_clear_set: "((f OR m) AND NOT m) OR m = f OR (m::'a::len word)"
  by (simp add: bit_eq_iff bit_simps) blast

lemma word_set_clear: "((f OR m) AND NOT m) AND m = (0::'a::len word)"
  by (simp add: bit_eq_iff bit_simps)

subsection \<open>The off-script\<close>

lemma off_returns:
  assumes "dsi (nt s) 0 = Some d0" "dsi (nt s) 1 = Some d1"
  shows "\<exists>r s'. nt35950_off E K s = Inr (r, s') \<and> rails (hw s') = rails (hw s) \<and>
           reset_line (hw s') = reset_line (hw s) \<and> (\<exists>tl. trace (hw s') = trace (hw s) @ tl)"
  using assms by (simp add: nt35950_off_def prim_defs)

subsection \<open>Power-up\<close>

text \<open>
  When every enable succeeds, \<open>nt35950_prepare\<close> is the on-script and its two exits, run
  in the state the power-up sequence leaves.
\<close>

lemma prepare_reaches_on:
  assumes "\<not> prepared (nt s)" and "\<And>h i. enable_result E h i = 0"
  shows "\<exists>S. nt35950_prepare E K s =
     bindP (nt35950_on E K) (\<lambda>ret. if ret < 0 then
          bindP (dev_err ''Failed to initialize panel: %d'' [ret]) (\<lambda>_.
          bindP (regulator_bulk_disable NT35950_VREG_MAX) (\<lambda>_.
          retP ret)) else
        bindP (set_prepared True) (\<lambda>_.
        retP 0)) S \<and>
     nt S = nt s \<and> reset_line (hw S) = 1 \<and>
     trace (hw S) = trace (hw s) @ power_up_sequence \<and>
     rails (hw S) = (rails (hw s))(0 := rails (hw s) 0 + 1, 5 := rails (hw s) 5 + 1,
                                3 := rails (hw s) 3 + 1, 4 := rails (hw s) 4 + 1,
                                1 := rails (hw s) 1 + 1, 2 := rails (hw s) 2 + 1)"
  using assms
  by (intro exI [of _ "s\<lparr>hw := (hw s)\<lparr>rails := (rails (hw s))(0 := rails (hw s) 0 + 1,
                                5 := rails (hw s) 5 + 1,
                                3 := rails (hw s) 3 + 1, 4 := rails (hw s) 4 + 1,
                                1 := rails (hw s) 1 + 1, 2 := rails (hw s) 2 + 1),
                       reset_line := 1,
                       trace := trace (hw s) @ power_up_sequence\<rparr>\<rparr>"])
     (simp add: nt35950_prepare_def nt35950_reset_def prim_defs power_up_sequence_def)

lemma prepare_tail:
  "\<exists>tl. trace (hw (result_sys (bindP (nt35950_on E K) (\<lambda>ret. if ret < 0 then
          bindP (dev_err m [ret]) (\<lambda>_.
          bindP (regulator_bulk_disable n) (\<lambda>_.
          retP ret)) else
        bindP (set_prepared True) (\<lambda>_.
        retP 0)) s))) = trace (hw s) @ tl \<and>
     reset_line (hw (result_sys (bindP (nt35950_on E K) (\<lambda>ret. if ret < 0 then
          bindP (dev_err m [ret]) (\<lambda>_.
          bindP (regulator_bulk_disable n) (\<lambda>_.
          retP ret)) else
        bindP (set_prepared True) (\<lambda>_.
        retP 0)) s))) = reset_line (hw s)"
proof -
  have r: "script_rel s (result_sys (nt35950_on E K s))"
    using frames_on [of E K] by (simp add: frames_def)
  show ?thesis
  proof (cases "nt35950_on E K s")
    case (Inl a)
    with r show ?thesis by (cases a) (auto simp: bindP_def script_rel_def)
  next
    case (Inr b)
    with r show ?thesis by (cases b) (auto simp: prim_defs script_rel_def)
  qed
qed

subsection \<open>Construction\<close>

text \<open>The attach loop over \<open>i..<n\<close> touches no endpoint outside that range.\<close>

lemma probe_attach_other:
  "j < i \<or> n \<le> j \<Longrightarrow> dsi (nt (result_sys (probe_attach P K i n s))) j = dsi (nt s) j"
proof (induction P K i n s rule: probe_attach.induct)
  case (1 P K i n s)
  show ?case
  proof (cases "i < n")
    case False
    then show ?thesis by (simp add: probe_attach.simps [of P K i n s])
  next
    case True
    show ?thesis
    proof (cases "dsi (nt s) i")
      case None
      with True show ?thesis by (simp add: probe_attach.simps [of P K i n s])
    next
      case (Some dv)
      show ?thesis
      proof (cases "desc (nt s)")
        case None
        with True Some show ?thesis by (simp add: probe_attach.simps [of P K i n s])
      next
        case (Some d)
        from True "1.prems" have ne: "j \<noteq> i" by auto
        show ?thesis
        proof (cases "attach_result P i < 0")
          case neg: True
          with True \<open>dsi (nt s) i = Some dv\<close> Some ne show ?thesis
            by (simp add: probe_attach.simps [of P K i n s] Let_def log_event_def)
        next
          case nneg: False
          from "1.prems" True have j: "j < i + 1 \<or> n \<le> j" by auto
          show ?thesis
            using True \<open>dsi (nt s) i = Some dv\<close> Some nneg ne
              "1.IH" [OF True \<open>dsi (nt s) i = Some dv\<close> Some refl refl refl refl refl nneg j]
            by (simp add: probe_attach.simps [of P K i n s] Let_def log_event_def)
        qed
      qed
    qed
  qed
qed

lemma probe_attach_other_Inr:
  "probe_attach P K i n s = Inr (v, s') \<Longrightarrow> j < i \<or> n \<le> j \<Longrightarrow> dsi (nt s') j = dsi (nt s) j"
  using probe_attach_other [of j i n P K s] by simp

lemma probe_attach_other_Inl:
  "probe_attach P K i n s = Inl (f, s') \<Longrightarrow> j < i \<or> n \<le> j \<Longrightarrow> dsi (nt s') j = dsi (nt s) j"
  using probe_attach_other [of j i n P K s] by simp

lemma init_vregs_returns:
  "\<exists>r s1. nt35950_sharp_init_vregs P s = Inr (r, s1) \<and> dsi (nt s1) = dsi (nt s) \<and>
     desc (nt s1) = desc (nt s) \<and> prepared (nt s1) = prepared (nt s)"
  by (simp add: nt35950_sharp_init_vregs_def set_vreg_supply_def
      regulator_is_supported_voltage_def prim_defs)

lemma probe_single_link:
  assumes "match_data P = Some d" and "\<not> is_dual_dsi d"
  shows "dsi (nt (result_sys (nt35950_probe P K dv w))) 1 = None"
proof (cases "kzalloc_fails P")
  case True
  then show ?thesis by (simp add: nt35950_probe_def nt_zero_def)
next
  case False
  obtain r s1 where i: "nt35950_sharp_init_vregs P \<lparr>nt = nt_zero, hw = w\<rparr> = Inr (r, s1)"
    and d1: "dsi (nt s1) = (\<lambda>i. None)"
    using init_vregs_returns [of P "\<lparr>nt = nt_zero, hw = w\<rparr>"] by (auto simp: nt_zero_def)
  from False i d1 assms show ?thesis
    by (auto simp: nt35950_probe_def probe_resolve_def readP_def probe_finish_def prim_defs
        set_desc_def set_dsi_def
        split: sum.splits option.splits
        dest!: probe_attach_other_Inr [where j = 1] probe_attach_other_Inl [where j = 1])
qed

lemma test_env_xfer_ok: "0 \<le> xfer_result (test_env [] bad_rails) h i c"
  by (cases c) (simp_all add: test_env_def)

lemma off_ok:
  assumes ok: "\<And>h c. \<not> xfer_result E h 0 c < 0"
    and d0: "dsi (nt s) 0 = Some d0" and d1: "dsi (nt s) 1 = Some d1"
  shows "nt35950_off E K s =
      Inr (0, s\<lparr>nt := (nt s)\<lparr>dsi := (dsi (nt s))
                   (0 := Some (d0\<lparr>mode_flags := mode_flags d0 OR MIPI_DSI_MODE_LPM K\<rparr>),
                    1 := Some (d1\<lparr>mode_flags := mode_flags d1 OR MIPI_DSI_MODE_LPM K\<rparr>))\<rparr>,
              hw := (hw s)\<lparr>trace := trace (hw s) @
                 [Dsi_xfer 0 Set_display_off, Usleep_range 10000 11000,
                  Dsi_xfer 0 Enter_sleep_mode, Msleep 150]\<rparr>\<rparr>)"
  using ok d0 d1
  by (simp add: nt35950_off_def prim_defs)

subsection \<open>The probe does not look at the hardware state\<close>

lemma hw_blind_retP: "hw_blind (retP v)"
  by (simp add: hw_blind_def retP_def)

lemma hw_blind_bindP:
  assumes "hw_blind m" and "\<And>v. hw_blind (k v)"
  shows "hw_blind (bindP m k)"
  unfolding hw_blind_def
proof (intro allI impI)
  fix s t :: sys
  assume n: "nt s = nt t"
  from assms(1) [unfolded hw_blind_def] n have m: "result_ret (m s) = result_ret (m t)"
    "nt (result_sys (m s)) = nt (result_sys (m t))"
    by blast+
  show "result_ret (bindP m k s) = result_ret (bindP m k t) \<and>
        nt (result_sys (bindP m k s)) = nt (result_sys (bindP m k t))"
  proof (cases "m s")
    case (Inl a)
    obtain f s1 where a: "a = (f, s1)" by (cases a)
    from m Inl a obtain g t1 where t: "m t = Inl (g, t1)"
      by (cases "m t") auto
    from m Inl a t show ?thesis by (simp add: bindP_def)
  next
    case (Inr b)
    obtain v s1 where b: "b = (v, s1)" by (cases b)
    from m Inr b obtain t1 where t: "m t = Inr (v, t1)"
      by (cases "m t") auto
    from m Inr b t have "nt s1 = nt t1" by simp
    with assms(2) [of v, unfolded hw_blind_def]
    have "result_ret (k v s1) = result_ret (k v t1) \<and>
        nt (result_sys (k v s1)) = nt (result_sys (k v t1))"
      by blast
    with Inr b t show ?thesis by (simp add: bindP_def)
  qed
qed

lemma hw_blind_readP:
  assumes "\<And>n. hw_blind (f n)"
  shows "hw_blind (readP f)"
  unfolding hw_blind_def readP_def
proof (intro allI impI)
  fix s t :: sys
  assume n: "nt s = nt t"
  from assms [of "nt t", unfolded hw_blind_def] n
  have "result_ret (f (nt t) s) = result_ret (f (nt t) t) \<and>
        nt (result_sys (f (nt t) s)) = nt (result_sys (f (nt t) t))"
    by blast
  with n show "result_ret (f (nt s) s) = result_ret (f (nt t) t) \<and>
        nt (result_sys (f (nt s) s)) = nt (result_sys (f (nt t) t))"
    by simp
qed

lemma hw_blind_if: "hw_blind a \<Longrightarrow> hw_blind b \<Longrightarrow> hw_blind (if c then a else b)"
  by simp

lemma hw_blind_case_option:
  "hw_blind a \<Longrightarrow> (\<And>x. hw_blind (b x)) \<Longrightarrow> hw_blind (case y of None \<Rightarrow> a | Some x \<Rightarrow> b x)"
  by (cases y) simp_all

lemma hw_blind_dev_err: "hw_blind (dev_err m a)"
  by (simp add: hw_blind_def dev_err_def log_event_def)

lemma hw_blind_set_desc: "hw_blind (set_desc d)"
  by (simp add: hw_blind_def set_desc_def)

lemma hw_blind_set_dsi: "hw_blind (set_dsi i d)"
  by (simp add: hw_blind_def set_dsi_def)

lemma hw_blind_gpiod: "hw_blind (gpiod_set_value_cansleep v)"
  by (simp add: hw_blind_def gpiod_set_value_cansleep_def log_event_def)

lemma hw_blind_log: "hw_blind (\<lambda>s. Inr ((), log_event e s))"
  by (simp add: hw_blind_def log_event_def)

text \<open>The attach loop, by induction along its own recursion.\<close>

lemma probe_attach_blind:
  "nt s = nt t \<Longrightarrow>
     result_ret (probe_attach P K i n s) = result_ret (probe_attach P K i n t) \<and>
     nt (result_sys (probe_attach P K i n s)) = nt (result_sys (probe_attach P K i n t))"
proof (induction P K i n s arbitrary: t rule: probe_attach.induct)
  case (1 P K i n s)
  note n = \<open>nt s = nt t\<close>
  show ?case
  proof (cases "i < n")
    case False
    with n show ?thesis
      by (simp add: probe_attach.simps [of P K i n s] probe_attach.simps [of P K i n t])
  next
    case True
    show ?thesis
    proof (cases "dsi (nt s) i")
      case None
      with True n show ?thesis
        by (simp add: probe_attach.simps [of P K i n s] probe_attach.simps [of P K i n t])
    next
      case (Some dv)
      note dv = this
      show ?thesis
      proof (cases "desc (nt s)")
        case None
        with True dv n show ?thesis
          by (simp add: probe_attach.simps [of P K i n s] probe_attach.simps [of P K i n t])
      next
        case (Some d)
        let ?dv1 = "dv\<lparr>lanes := unat (num_lanes d), format := MIPI_DSI_FMT_RGB888 K,
                       mode_flags := MIPI_DSI_MODE_EOT_PACKET K OR
                                     MIPI_DSI_CLOCK_NON_CONTINUOUS K OR MIPI_DSI_MODE_LPM K\<rparr>"
        let ?dv2 = "if is_video_mode d
                    then ?dv1\<lparr>mode_flags := mode_flags ?dv1 OR MIPI_DSI_MODE_VIDEO K\<rparr>
                    else ?dv1"
        let ?s2 = "log_event (Dsi_attach i) (s\<lparr>nt := (nt s)\<lparr>dsi := (dsi (nt s))(i := Some ?dv2)\<rparr>\<rparr>)"
        let ?t2 = "log_event (Dsi_attach i) (t\<lparr>nt := (nt t)\<lparr>dsi := (dsi (nt t))(i := Some ?dv2)\<rparr>\<rparr>)"
        have n2: "nt ?s2 = nt ?t2"
          using n by (simp add: log_event_def)
        show ?thesis
        proof (cases "attach_result P i < 0")
          case neg: True
          have "probe_attach P K i n s = Inr (Some (attach_result P i),
                  log_event (Dev_err ''Failed to attach to DSI%d host: %d'' [int i, attach_result P i]) ?s2)"
            using True dv Some neg by (simp add: probe_attach.simps [of P K i n s] Let_def)
          moreover have "probe_attach P K i n t = Inr (Some (attach_result P i),
                  log_event (Dev_err ''Failed to attach to DSI%d host: %d'' [int i, attach_result P i]) ?t2)"
            using True dv Some neg n by (simp add: probe_attach.simps [of P K i n t] Let_def)
          ultimately show ?thesis
            using n by (simp add: log_event_def)
        next
          case nneg: False
          have s: "probe_attach P K i n s = probe_attach P K (i + 1) n ?s2"
            using True dv Some nneg by (simp add: probe_attach.simps [of P K i n s] Let_def)
          have t: "probe_attach P K i n t = probe_attach P K (i + 1) n ?t2"
            using True dv Some nneg n by (simp add: probe_attach.simps [of P K i n t] Let_def)
          show ?thesis
            unfolding s t
            by (rule "1.IH" [OF True dv Some refl refl refl refl refl nneg n2])
        qed
      qed
    qed
  qed
qed

lemma hw_blind_probe_attach: "hw_blind (probe_attach P K i n)"
  unfolding hw_blind_def by (intro allI impI) (rule probe_attach_blind)

lemmas hw_blind_intros = hw_blind_bindP hw_blind_readP hw_blind_if hw_blind_case_option
  hw_blind_retP hw_blind_dev_err hw_blind_set_desc hw_blind_set_dsi hw_blind_gpiod hw_blind_log
  hw_blind_probe_attach

lemma hw_blind_probe_finish: "hw_blind (probe_finish P K dv n)"
  unfolding probe_finish_def by (intro hw_blind_intros)

lemma hw_blind_probe_resolve: "hw_blind (probe_resolve P K dv)"
  unfolding probe_resolve_def by (intro hw_blind_intros hw_blind_probe_finish)

lemma probe_attach_env:
  "attach_result P' = attach_result P \<Longrightarrow> probe_attach P' K i n s = probe_attach P K i n s"
proof (induction P K i n s rule: probe_attach.induct)
  case (1 P K i n s)
  show ?case
  proof (cases "i < n")
    case False
    then show ?thesis
      by (simp add: probe_attach.simps [of P K i n s] probe_attach.simps [of P' K i n s])
  next
    case True
    show ?thesis
    proof (cases "dsi (nt s) i")
      case None
      with True show ?thesis
        by (simp add: probe_attach.simps [of P K i n s] probe_attach.simps [of P' K i n s])
    next
      case (Some dv)
      note dv = this
      show ?thesis
      proof (cases "desc (nt s)")
        case None
        with True dv show ?thesis
          by (simp add: probe_attach.simps [of P K i n s] probe_attach.simps [of P' K i n s])
      next
        case (Some d)
        show ?thesis
        proof (cases "attach_result P i < 0")
          case neg: True
          with True dv Some "1.prems" show ?thesis
            by (simp add: probe_attach.simps [of P K i n s] probe_attach.simps [of P' K i n s]
                Let_def)
        next
          case nneg: False
          show ?thesis
            using True dv Some nneg "1.prems"
              "1.IH" [OF True dv Some refl refl refl refl refl nneg "1.prems"]
            by (simp add: probe_attach.simps [of P K i n s] probe_attach.simps [of P' K i n s]
                Let_def)
        qed
      qed
    qed
  qed
qed

lemma probe_attach_env_fun:
  "attach_result P' = attach_result P \<Longrightarrow> probe_attach P' K i n = probe_attach P K i n"
  by (rule ext) (rule probe_attach_env)

lemma probe_finish_env:
  "probe_finish (P\<lparr>bulk_get_result := b, supported_voltage := v\<rparr>) K dv n = probe_finish P K dv n"
proof -
  have "probe_attach (P\<lparr>bulk_get_result := b, supported_voltage := v\<rparr>) K 0 n = probe_attach P K 0 n"
    by (rule probe_attach_env_fun) simp
  then show ?thesis
    by (simp add: probe_finish_def cong: if_cong option.case_cong)
qed

lemma probe_resolve_env:
  "probe_resolve (P\<lparr>bulk_get_result := b, supported_voltage := v\<rparr>) K dv = probe_resolve P K dv"
  by (simp add: probe_resolve_def probe_finish_env cong: if_cong option.case_cong)

lemma init_vregs_nt:
  "\<exists>r s1. nt35950_sharp_init_vregs P s = Inr (r, s1) \<and>
     nt s1 = (nt s)\<lparr>vregs := (vregs (nt s))(0 := ''vddio'', 1 := ''tvddio'', 2 := ''tavdd'',
                                            3 := ''avdd'', 4 := ''avee'', 5 := ''dvdd'')\<rparr>"
  by (simp add: nt35950_sharp_init_vregs_def set_vreg_supply_def
      regulator_is_supported_voltage_def prim_defs)

lemma probe_after_init:
  assumes "nt s = nt t"
  shows "result_ret (bindP (if c then dev_err m a else retP ()) (\<lambda>_. probe_resolve P K dv) s) =
         result_ret (bindP (if c' then dev_err m' a' else retP ()) (\<lambda>_. probe_resolve P K dv) t)"
proof -
  obtain s' where s': "(if c then dev_err m a else retP ()) s = Inr ((), s')" "nt s' = nt s"
    by (cases c) (simp_all add: dev_err_def retP_def log_event_def)
  obtain t' where t': "(if c' then dev_err m' a' else retP ()) t = Inr ((), t')" "nt t' = nt t"
    by (cases c') (simp_all add: dev_err_def retP_def log_event_def)
  from s'(2) t'(2) assms have "nt s' = nt t'" by simp
  with hw_blind_probe_resolve [of P K dv, unfolded hw_blind_def]
  have "result_ret (probe_resolve P K dv s') = result_ret (probe_resolve P K dv t')"
    by blast
  then show ?thesis
    by (simp add: bindP_def s'(1) t'(1))
qed

lemma bindP_Inr: "m s = Inr (v, s1) \<Longrightarrow> bindP m k s = k v s1"
  by (simp add: bindP_def)

subsection \<open>What a completed prepare leaves behind\<close>

lemma on_returns_endpoints:
  assumes "nt35950_on E K s = Inr (r, s')"
  shows "dsi (nt s') 0 \<noteq> None \<and> dsi (nt s') 1 \<noteq> None \<and> script_rel s s'"
proof -
  have rel: "script_rel s s'"
    using frames_on [of E K] assms by (auto simp: frames_def dest: spec [of _ s])
  have 0: "dsi (nt s) 0 \<noteq> None"
  proof
    assume "dsi (nt s) 0 = None"
    then have "is_fault (nt35950_on E K s)"
      by (simp add: nt35950_on_def prim_defs)
    with assms show False by simp
  qed
  then obtain d0 where d0: "dsi (nt s) 0 = Some d0" by auto
  have 1: "dsi (nt s) 1 \<noteq> None"
  proof
    assume "dsi (nt s) 1 = None"
    from on_single_link [OF d0 this, of E K] assms show False by simp
  qed
  from rel 0 1 show ?thesis by (simp add: script_rel_def)
qed

lemma on_keeps_prepared:
  "nt35950_on E K s = Inr (r, s') \<Longrightarrow> prepared (nt s') = prepared (nt s)"
  using on_returns_endpoints [of E K s r s'] by (simp add: script_rel_def)

lemma prepare_splits:
  assumes "\<not> prepared (nt s)" and "nt35950_prepare E K s = Inr (r, s')"
  shows "\<not> prepared (nt s') \<or>
         (\<exists>S v s1. nt35950_on E K S = Inr (v, s1) \<and> \<not> v < 0 \<and> r = 0 \<and>
             s' = s1\<lparr>nt := (nt s1)\<lparr>prepared := True\<rparr>\<rparr>)"
  using assms
  by (auto simp: nt35950_prepare_def nt35950_reset_def prim_defs
      split: if_splits sum.splits prod.splits dest: on_keeps_prepared)

text \<open>
  A prepare that starts from a panel that is not prepared and leaves it prepared has
  returned 0 on an instance with two valid endpoint handles.
\<close>

lemma prepared_has_both_endpoints:
  assumes "\<not> prepared (nt s)" and "nt35950_prepare E K s = Inr (r, s')" and "prepared (nt s')"
  shows "dsi (nt s') 0 \<noteq> None \<and> dsi (nt s') 1 \<noteq> None \<and> r = 0"
proof -
  from prepare_splits [OF assms(1,2)] assms(3) obtain S v s1 where
    on: "nt35950_on E K S = Inr (v, s1)" and r: "r = 0"
    and s': "s' = s1\<lparr>nt := (nt s1)\<lparr>prepared := True\<rparr>\<rparr>"
    by blast
  from on_returns_endpoints [OF on] s' r show ?thesis by simp
qed

lemma six_rails_restored:
  "(if i < 6 then ((f :: nat \<Rightarrow> nat)(0 := f 0 + 1, 5 := f 5 + 1, 3 := f 3 + 1, 4 := f 4 + 1,
                     1 := f 1 + 1, 2 := f 2 + 1)) i - 1
    else (f(0 := f 0 + 1, 5 := f 5 + 1, 3 := f 3 + 1, 4 := f 4 + 1,
            1 := f 1 + 1, 2 := f 2 + 1)) i) = f i"
proof -
  consider "i = 0" | "i = 1" | "i = 2" | "i = 3" | "i = 4" | "i = 5" | "6 \<le> i"
    by linarith
  then show ?thesis by cases simp_all
qed

text \<open>
  The failure path that does roll back: when the six rails come up and the on-script
  then fails, \<open>nt35950_prepare\<close> logs, bulk-disables the rails and returns the script's
  error; every use count is as before the call and the panel is not prepared.
\<close>

lemma prepare_script_failure_rolls_back:
  assumes p: "\<not> prepared (nt s)" and e: "\<And>h i. enable_result E h i = 0"
    and r: "nt35950_prepare E K s = Inr (r, s')" and nz: "r \<noteq> 0"
  shows "r < 0 \<and> rails (hw s') = rails (hw s) \<and> \<not> prepared (nt s') \<and>
         (\<exists>tl. trace (hw s') = trace (hw s) @ power_up_sequence @ tl @
                  [Dev_err ''Failed to initialize panel: %d'' [r], Regulator_bulk_disable 6])"
proof -
  from prepare_reaches_on [OF p e, of K] obtain S where
    S: "nt35950_prepare E K s =
     bindP (nt35950_on E K) (\<lambda>ret. if ret < 0 then
          bindP (dev_err ''Failed to initialize panel: %d'' [ret]) (\<lambda>_.
          bindP (regulator_bulk_disable NT35950_VREG_MAX) (\<lambda>_.
          retP ret)) else
        bindP (set_prepared True) (\<lambda>_.
        retP 0)) S" and n: "nt S = nt s"
    and t: "trace (hw S) = trace (hw s) @ power_up_sequence"
    and ra: "rails (hw S) = (rails (hw s))(0 := rails (hw s) 0 + 1, 5 := rails (hw s) 5 + 1,
                                3 := rails (hw s) 3 + 1, 4 := rails (hw s) 4 + 1,
                                1 := rails (hw s) 1 + 1, 2 := rails (hw s) 2 + 1)"
    by blast
  show ?thesis
  proof (cases "nt35950_on E K S")
    case (Inl a)
    with r S show ?thesis by (simp add: bindP_def)
  next
    case (Inr b)
    obtain v s1 where b: "b = (v, s1)" by (cases b)
    from on_returns_endpoints [of E K S v s1] Inr b have rel: "script_rel S s1" by simp
    show ?thesis
    proof (cases "v < 0")
      case False
      with r S Inr b nz show ?thesis by (simp add: prim_defs)
    next
      case True
      with r S Inr b have s': "r = v" "prepared (nt s') = prepared (nt s1)"
        "trace (hw s') = trace (hw s1) @ [Dev_err ''Failed to initialize panel: %d'' [v],
                                         Regulator_bulk_disable 6]"
        "\<And>i. rails (hw s') i = (if i < 6 then rails (hw s1) i - 1 else rails (hw s1) i)"
        by (auto simp: prim_defs mcs_defs)
      from rel obtain tl where tl: "trace (hw s1) = trace (hw S) @ tl"
        by (auto simp: script_rel_def)
      from rel have k: "rails (hw s1) = rails (hw S)" "prepared (nt s1) = prepared (nt S)"
        by (simp_all add: script_rel_def)
      have "rails (hw s') i = rails (hw s) i" for i
        unfolding s'(4) k(1) ra by (rule six_rails_restored)
      then have "rails (hw s') = rails (hw s)" by (rule ext)
      with s'(1-3) k(2) n p True tl t show ?thesis
        by simp
    qed
  qed
qed

subsection \<open>A single-link instance\<close>

text \<open>
  \<open>nt35950_prepare\<close> on a panel that is not prepared: when the six enables succeed it is
  the on-script and its two exits; otherwise it returns the nonzero answer of an enable
  and leaves the driver structure alone.
\<close>

lemma prepare_rails_up:
  assumes "\<not> prepared (nt s)" and "rails_come_up E (trace (hw s))"
  shows "\<exists>S. nt35950_prepare E K s =
     bindP (nt35950_on E K) (\<lambda>ret. if ret < 0 then
          bindP (dev_err ''Failed to initialize panel: %d'' [ret]) (\<lambda>_.
          bindP (regulator_bulk_disable NT35950_VREG_MAX) (\<lambda>_.
          retP ret)) else
        bindP (set_prepared True) (\<lambda>_.
        retP 0)) S \<and> nt S = nt s"
  using assms
  by (intro exI [of _ "s\<lparr>hw := (hw s)\<lparr>rails := (rails (hw s))(0 := rails (hw s) 0 + 1,
                                5 := rails (hw s) 5 + 1,
                                3 := rails (hw s) 3 + 1, 4 := rails (hw s) 4 + 1,
                                1 := rails (hw s) 1 + 1, 2 := rails (hw s) 2 + 1),
                       reset_line := 1,
                       trace := trace (hw s) @ power_up_sequence\<rparr>\<rparr>"])
     (simp add: nt35950_prepare_def nt35950_reset_def prim_defs power_up_sequence_def
        rails_come_up_def)

lemma prepare_rails_down:
  assumes "\<not> prepared (nt s)" and "\<not> rails_come_up E (trace (hw s))"
  shows "\<exists>r s'. nt35950_prepare E K s = Inr (r, s') \<and> r \<noteq> 0 \<and> nt s' = nt s"
  using assms
  by (auto simp: nt35950_prepare_def prim_defs rails_come_up_def)

text \<open>Nothing in \<open>nt35950_probe\<close> sets \<open>prepared\<close>.\<close>

lemma probe_attach_prepared:
  "prepared (nt (result_sys (probe_attach P K i n s))) = prepared (nt s)"
proof (induction P K i n s rule: probe_attach.induct)
  case (1 P K i n s)
  show ?case
  proof (cases "i < n")
    case False
    then show ?thesis by (simp add: probe_attach.simps [of P K i n s])
  next
    case True
    show ?thesis
    proof (cases "dsi (nt s) i")
      case None
      with True show ?thesis by (simp add: probe_attach.simps [of P K i n s])
    next
      case (Some dv)
      note dv = this
      show ?thesis
      proof (cases "desc (nt s)")
        case None
        with True dv show ?thesis by (simp add: probe_attach.simps [of P K i n s])
      next
        case (Some d)
        show ?thesis
        proof (cases "attach_result P i < 0")
          case neg: True
          with True dv Some show ?thesis
            by (simp add: probe_attach.simps [of P K i n s] Let_def log_event_def)
        next
          case nneg: False
          show ?thesis
            using True dv Some nneg
              "1.IH" [OF True dv Some refl refl refl refl refl nneg]
            by (simp add: probe_attach.simps [of P K i n s] Let_def log_event_def)
        qed
      qed
    qed
  qed
qed

lemma frames_bindP_gen:
  assumes tr: "\<And>a b c. R a b \<Longrightarrow> R b c \<Longrightarrow> R a c"
    and m: "frames R m" and k: "\<And>v. frames R (k v)"
  shows "frames R (bindP m k)"
  unfolding frames_def
proof
  fix s
  from m have ms: "R s (result_sys (m s))" by (simp add: frames_def)
  show "R s (result_sys (bindP m k s))"
  proof (cases "m s")
    case (Inl a)
    with ms show ?thesis by (cases a) (simp add: bindP_def)
  next
    case (Inr b)
    obtain v s1 where b: "b = (v, s1)" by (cases b)
    from ms Inr b have 1: "R s s1" by simp
    from k [of v] have 2: "R s1 (result_sys (k v s1))" by (simp add: frames_def)
    from Inr b have "bindP m k s = k v s1" by (simp add: bindP_def)
    with tr [OF 1 2] show ?thesis by simp
  qed
qed

lemma kp_bindP:
  "frames keeps_prepared m \<Longrightarrow> (\<And>v. frames keeps_prepared (k v)) \<Longrightarrow>
     frames keeps_prepared (bindP m k)"
  by (rule frames_bindP_gen [of keeps_prepared]) (simp_all add: keeps_prepared_def)

lemma kp_readP: "(\<And>n. frames keeps_prepared (f n)) \<Longrightarrow> frames keeps_prepared (readP f)"
  by (simp add: frames_def readP_def)

lemma kp_case_option:
  "frames R a \<Longrightarrow> (\<And>x. frames R (b x)) \<Longrightarrow> frames R (case y of None \<Rightarrow> a | Some x \<Rightarrow> b x)"
  by (cases y) simp_all

lemma kp_retP: "frames keeps_prepared (retP v)"
  by (simp add: frames_def retP_def keeps_prepared_def)

lemma kp_dev_err: "frames keeps_prepared (dev_err m a)"
  by (simp add: frames_def dev_err_def log_event_def keeps_prepared_def)

lemma kp_set_desc: "frames keeps_prepared (set_desc d)"
  by (simp add: frames_def set_desc_def keeps_prepared_def)

lemma kp_set_dsi: "frames keeps_prepared (set_dsi i d)"
  by (simp add: frames_def set_dsi_def keeps_prepared_def)

lemma kp_gpiod: "frames keeps_prepared (gpiod_set_value_cansleep v)"
  by (simp add: frames_def gpiod_set_value_cansleep_def log_event_def keeps_prepared_def)

lemma kp_log: "frames keeps_prepared (\<lambda>s. Inr ((), log_event e s))"
  by (simp add: frames_def log_event_def keeps_prepared_def)

lemma kp_probe_attach: "frames keeps_prepared (probe_attach P K i n)"
  by (simp add: frames_def keeps_prepared_def probe_attach_prepared)

lemma kp_init_vregs: "frames keeps_prepared (nt35950_sharp_init_vregs P)"
  unfolding frames_def keeps_prepared_def
proof
  fix s
  from init_vregs_returns [of P s] show
    "prepared (nt (result_sys (nt35950_sharp_init_vregs P s))) = prepared (nt s)"
    by auto
qed

lemmas kp_intros = kp_bindP kp_readP frames_if kp_case_option kp_retP kp_dev_err kp_set_desc
  kp_set_dsi kp_gpiod kp_log kp_probe_attach kp_init_vregs

lemma kp_probe_resolve: "frames keeps_prepared (probe_resolve P K dv)"
  unfolding probe_resolve_def probe_finish_def by (intro kp_intros)

lemma probe_not_prepared:
  "\<not> prepared (nt (result_sys (nt35950_probe P K dv w)))"
proof (cases "kzalloc_fails P")
  case True
  then show ?thesis by (simp add: nt35950_probe_def nt_zero_def)
next
  case False
  have "frames keeps_prepared (bindP (nt35950_sharp_init_vregs P) (\<lambda>ret.
        bindP (if ret \<noteq> 0 \<and> ret \<noteq> - EPROBE_DEFER K
               then dev_err ''Regulator init failure: %d -- NO FAILURE: DEVELOPMENT MODE'' [ret]
               else retP ()) (\<lambda>_.
        probe_resolve P K dv)))"
    by (intro kp_intros kp_probe_resolve)
  with False show ?thesis
    by (simp add: nt35950_probe_def frames_def keeps_prepared_def nt_zero_def)
qed

subsection \<open>The claims\<close>

text \<open>
  C1 on the code: on a fresh dual-link panel, the enable of dvdd (rail 5) fails with
  \<^verbatim>\<open>-EINVAL\<close> after vddio (rail 0) has been enabled. \<open>nt35950_prepare\<close> returns the
  error at once; the trace holds no bulk disable and the use count of vddio is still 1.
\<close>

theorem prepare_rail_failure_leaves_rail_enabled:
  "result_ret (nt35950_prepare (test_env [] [5]) linux_hdr (panel 2 0xE00 False)) = Some (- 22) \<and>
   trace (hw (result_sys (nt35950_prepare (test_env [] [5]) linux_hdr (panel 2 0xE00 False)))) =
     [Regulator_enable 0, Usleep_range 2000 5000, Regulator_enable 5] \<and>
   rails (hw (panel 2 0xE00 False)) 0 = 0 \<and>
   rails (hw (result_sys (nt35950_prepare (test_env [] [5]) linux_hdr (panel 2 0xE00 False)))) 0 = 1 \<and>
   \<not> prepared (nt (result_sys (nt35950_prepare (test_env [] [5]) linux_hdr (panel 2 0xE00 False))))"
  by (simp add: nt35950_prepare_def prim_defs fixture_defs)

text \<open>
  C2, as the code has it: \<open>nt35950_off\<close> stops at its first failing step. With \<open>r1\<close> the
  answer to the display-off transfer and \<open>r2\<close> the answer to the enter-sleep transfer:
  if \<open>r1\<close> is negative, it is logged and returned at once, the enter-sleep transfer is not
  attempted and no mode flag is touched; if \<open>r1\<close> is not negative and \<open>r2\<close> is, \<open>r2\<close> is
  logged and returned after the 10 to 11 ms wait, without the 150 ms wait and with no mode
  flag touched; only when neither is negative does the script wait 150 ms, set the
  low-power-mode flag on both endpoints and return 0.
\<close>

theorem off_stops_at_first_failure:
  assumes "dsi (nt s) 0 = Some d0"
    and "r1 = xfer_result E (trace (hw s)) 0 Set_display_off"
    and "r2 = xfer_result E (trace (hw s) @ [Dsi_xfer 0 Set_display_off, Usleep_range 10000 11000])
                0 Enter_sleep_mode"
  shows "(r1 < 0 \<longrightarrow>
            nt35950_off E K s =
              Inr (r1, s\<lparr>hw := (hw s)\<lparr>trace := trace (hw s) @
                     [Dsi_xfer 0 Set_display_off,
                      Dev_err ''Failed to set display off: %d'' [r1]]\<rparr>\<rparr>)) \<and>
         (0 \<le> r1 \<and> r2 < 0 \<longrightarrow>
            nt35950_off E K s =
              Inr (r2, s\<lparr>hw := (hw s)\<lparr>trace := trace (hw s) @
                     [Dsi_xfer 0 Set_display_off, Usleep_range 10000 11000,
                      Dsi_xfer 0 Enter_sleep_mode,
                      Dev_err ''Failed to enter sleep mode: %d'' [r2]]\<rparr>\<rparr>)) \<and>
         (0 \<le> r1 \<and> 0 \<le> r2 \<and> dsi (nt s) 1 = Some d1 \<longrightarrow>
            nt35950_off E K s =
              Inr (0, s\<lparr>nt := (nt s)\<lparr>dsi := (dsi (nt s))
                         (0 := Some (d0\<lparr>mode_flags := mode_flags d0 OR MIPI_DSI_MODE_LPM K\<rparr>),
                          1 := Some (d1\<lparr>mode_flags := mode_flags d1 OR MIPI_DSI_MODE_LPM K\<rparr>))\<rparr>,
                      hw := (hw s)\<lparr>trace := trace (hw s) @
                     [Dsi_xfer 0 Set_display_off, Usleep_range 10000 11000,
                      Dsi_xfer 0 Enter_sleep_mode, Msleep 150]\<rparr>\<rparr>))"
  using assms by (simp add: nt35950_off_def prim_defs)

text \<open>
  A prepared dual-link panel where the display-off transfer fails, where the enter-sleep
  transfer fails, and where both succeed.
\<close>

theorem off_stops_at_first_failure_witness:
  "nt35950_off (test_env [Set_display_off] []) linux_hdr (panel 2 0 True) =
     Inr (- 5, (panel 2 0 True)\<lparr>hw := (hw (panel 2 0 True))\<lparr>trace :=
             [Dsi_xfer 0 Set_display_off, Dev_err ''Failed to set display off: %d'' [- 5]]\<rparr>\<rparr>) \<and>
   nt35950_off (test_env [Enter_sleep_mode] []) linux_hdr (panel 2 0 True) =
     Inr (- 5, (panel 2 0 True)\<lparr>hw := (hw (panel 2 0 True))\<lparr>trace :=
             [Dsi_xfer 0 Set_display_off, Usleep_range 10000 11000,
              Dsi_xfer 0 Enter_sleep_mode, Dev_err ''Failed to enter sleep mode: %d'' [- 5]]\<rparr>\<rparr>) \<and>
   result_ret (nt35950_off (test_env [] []) linux_hdr (panel 2 0 True)) = Some 0 \<and>
   map_option mode_flags
     (dsi (nt (result_sys (nt35950_off (test_env [] []) linux_hdr (panel 2 0 True)))) 0) = Some 0x800 \<and>
   map_option mode_flags
     (dsi (nt (result_sys (nt35950_off (test_env [] []) linux_hdr (panel 2 0 True)))) 1) = Some 0x800"
  using off_stops_at_first_failure [of "panel 2 0 True" "endpoint 0" "- 5"
      "test_env [Set_display_off] []" 0 linux_hdr "endpoint 0"]
    off_stops_at_first_failure [of "panel 2 0 True" "endpoint 0" 0
      "test_env [Enter_sleep_mode] []" "- 5" linux_hdr "endpoint 0"]
    off_stops_at_first_failure [of "panel 2 0 True" "endpoint 0" 0
      "test_env [] []" 0 linux_hdr "endpoint 0"]
  by (simp add: fixture_defs)

text \<open>
  C2 as stated fails: with a failing display-off transfer on a prepared dual-link panel
  whose flags are all clear, the off-script returns the error after the log line; the
  enter-sleep transfer is not in the trace and low-power mode is set on neither endpoint.
  With a failing enter-sleep transfer it returns that error, again with low-power mode set
  on neither endpoint.
\<close>

theorem off_failure_skips_rest:
  "result_ret (nt35950_off (test_env [Set_display_off] []) linux_hdr (panel 2 0 True)) = Some (- 5) \<and>
   trace (hw (result_sys (nt35950_off (test_env [Set_display_off] []) linux_hdr (panel 2 0 True)))) =
     [Dsi_xfer 0 Set_display_off, Dev_err ''Failed to set display off: %d'' [- 5]] \<and>
   Dsi_xfer 0 Enter_sleep_mode \<notin>
     set (trace (hw (result_sys (nt35950_off (test_env [Set_display_off] []) linux_hdr (panel 2 0 True))))) \<and>
   map_option mode_flags
     (dsi (nt (result_sys (nt35950_off (test_env [Set_display_off] []) linux_hdr (panel 2 0 True)))) 0) = Some 0 \<and>
   map_option mode_flags
     (dsi (nt (result_sys (nt35950_off (test_env [Set_display_off] []) linux_hdr (panel 2 0 True)))) 1) = Some 0 \<and>
   result_ret (nt35950_off (test_env [Enter_sleep_mode] []) linux_hdr (panel 2 0 True)) = Some (- 5) \<and>
   trace (hw (result_sys (nt35950_off (test_env [Enter_sleep_mode] []) linux_hdr (panel 2 0 True)))) =
     [Dsi_xfer 0 Set_display_off, Usleep_range 10000 11000, Dsi_xfer 0 Enter_sleep_mode,
      Dev_err ''Failed to enter sleep mode: %d'' [- 5]] \<and>
   map_option mode_flags
     (dsi (nt (result_sys (nt35950_off (test_env [Enter_sleep_mode] []) linux_hdr (panel 2 0 True)))) 0) = Some 0 \<and>
   map_option mode_flags
     (dsi (nt (result_sys (nt35950_off (test_env [Enter_sleep_mode] []) linux_hdr (panel 2 0 True)))) 1) = Some 0"
  by (simp add: nt35950_off_def prim_defs fixture_defs)

text \<open>
  C3: on a prepared panel whose two endpoint handles are valid (as they are on every
  panel that \<open>nt35950_prepare\<close> has prepared, lemma \<open>prepared_has_both_endpoints\<close>),
  \<open>nt35950_unprepare\<close> returns 0 whatever the
  off-script did: the reset line is driven to 0, all six rails are bulk-disabled (each
  use count lowered by one), \<open>prepared\<close> is false, and these two operations end the trace.
\<close>

theorem unprepare_always_tears_down:
  assumes "prepared (nt s)" and "dsi (nt s) 0 \<noteq> None" and "dsi (nt s) 1 \<noteq> None"
  shows "\<exists>s' tl. nt35950_unprepare E K s = Inr (0, s') \<and> \<not> prepared (nt s') \<and>
           reset_line (hw s') = 0 \<and>
           (\<forall>i. rails (hw s') i = (if i < 6 then rails (hw s) i - 1 else rails (hw s) i)) \<and>
           trace (hw s') = trace (hw s) @ tl @ [Gpiod_set_value 0, Regulator_bulk_disable 6]"
proof -
  from assms obtain d0 d1 where d: "dsi (nt s) 0 = Some d0" "dsi (nt s) 1 = Some d1" by auto
  from off_returns [OF d] obtain r s1 tl where
    off: "nt35950_off E K s = Inr (r, s1)" and r: "rails (hw s1) = rails (hw s)"
    and t: "trace (hw s1) = trace (hw s) @ tl" by blast
  show ?thesis
  proof (cases "r < 0")
    case True
    with off r t assms(1) show ?thesis
      by (simp add: nt35950_unprepare_def prim_defs mcs_defs)
  next
    case False
    with off r t assms(1) show ?thesis
      by (simp add: nt35950_unprepare_def prim_defs mcs_defs)
  qed
qed

text \<open>The scenario of the specification: the enter-sleep transfer fails.\<close>

theorem unprepare_always_tears_down_witness:
  "\<exists>s' tl. nt35950_unprepare (test_env [Enter_sleep_mode] []) linux_hdr (panel 2 0 True) = Inr (0, s') \<and>
      \<not> prepared (nt s') \<and> reset_line (hw s') = 0 \<and>
      (\<forall>i. rails (hw s') i =
           (if i < 6 then rails (hw (panel 2 0 True)) i - 1 else rails (hw (panel 2 0 True)) i)) \<and>
      trace (hw s') = trace (hw (panel 2 0 True)) @ tl @ [Gpiod_set_value 0, Regulator_bulk_disable 6]"
  using unprepare_always_tears_down [of "panel 2 0 True" "test_env [Enter_sleep_mode] []" linux_hdr]
  by (simp add: panel_def)

text \<open>
  C4: \<open>nt35950_prepare\<close> on a prepared panel and \<open>nt35950_unprepare\<close> on a panel that
  is not prepared return 0 and leave the whole state as it was: the driver structure,
  the rails, the reset line and the trace, so no transfer and no rail or reset operation
  takes place.
\<close>

theorem prepare_unprepare_idempotent:
  "(prepared (nt s) \<longrightarrow> nt35950_prepare E K s = Inr (0, s)) \<and>
   (\<not> prepared (nt s) \<longrightarrow> nt35950_unprepare E K s = Inr (0, s))"
  by (simp add: nt35950_prepare_def nt35950_unprepare_def retP_def)

text \<open>A second prepare on a prepared panel, and an unprepare on a fresh one.\<close>

theorem prepare_unprepare_idempotent_witness:
  "nt35950_prepare (test_env [] []) linux_hdr (panel 2 0 True) = Inr (0, panel 2 0 True) \<and>
   trace (hw (result_sys (nt35950_prepare (test_env [] []) linux_hdr (panel 2 0 True)))) = [] \<and>
   nt35950_unprepare (test_env [] []) linux_hdr (panel 2 0 False) = Inr (0, panel 2 0 False) \<and>
   trace (hw (result_sys (nt35950_unprepare (test_env [] []) linux_hdr (panel 2 0 False)))) = []"
  using prepare_unprepare_idempotent [of "panel 2 0 True" "test_env [] []" linux_hdr]
    prepare_unprepare_idempotent [of "panel 2 0 False" "test_env [] []" linux_hdr]
  by (simp add: panel_def world0_def)

text \<open>
  C5: when the panel is not prepared and every rail enable succeeds,
  \<open>nt35950_prepare\<close> first performs exactly \<open>power_up_sequence\<close>: vddio (rail 0), 2 to 5 ms,
  dvdd (rail 5), 15 to 18 ms, avdd and avee (rails 3 and 4) with no wait between them,
  12 to 13 ms, tvddio and tavdd (rails 1 and 2), 15 to 16 ms, then reset high for
  12 to 13 ms, low for 0.3 to 0.4 ms, high for 12 to 13 ms. Nothing later touches the reset
  line, which is still high when the call is over. The rail names are those
  \<open>nt35950_sharp_init_vregs\<close> gives the indices.
\<close>

theorem prepare_power_up_order:
  assumes "\<not> prepared (nt s)" and "\<forall>h i. enable_result E h i = 0"
  shows "(\<exists>tl. trace (hw (result_sys (nt35950_prepare E K s))) =
                 trace (hw s) @ power_up_sequence @ tl) \<and>
         reset_line (hw (result_sys (nt35950_prepare E K s))) = 1 \<and>
         map (vregs (nt (result_sys (nt35950_sharp_init_vregs P s0)))) [0, 5, 3, 4, 1, 2] =
           [''vddio'', ''dvdd'', ''avdd'', ''avee'', ''tvddio'', ''tavdd'']"
proof -
  have v: "map (vregs (nt (result_sys (nt35950_sharp_init_vregs P s0)))) [0, 5, 3, 4, 1, 2] =
           [''vddio'', ''dvdd'', ''avdd'', ''avee'', ''tvddio'', ''tavdd'']"
    by (simp add: nt35950_sharp_init_vregs_def set_vreg_supply_def
        regulator_is_supported_voltage_def prim_defs)
  from assms have e: "\<And>h i. enable_result E h i = 0" by simp
  from prepare_reaches_on [OF assms(1) e, of K] obtain S where
    S: "nt35950_prepare E K s =
     bindP (nt35950_on E K) (\<lambda>ret. if ret < 0 then
          bindP (dev_err ''Failed to initialize panel: %d'' [ret]) (\<lambda>_.
          bindP (regulator_bulk_disable NT35950_VREG_MAX) (\<lambda>_.
          retP ret)) else
        bindP (set_prepared True) (\<lambda>_.
        retP 0)) S" and l: "reset_line (hw S) = 1"
      and t: "trace (hw S) = trace (hw s) @ power_up_sequence"
    by blast
  from prepare_tail [of E K "''Failed to initialize panel: %d''" NT35950_VREG_MAX S]
  show ?thesis
    unfolding S [symmetric] using l t v by auto
qed

text \<open>A fresh dual-link panel on which everything succeeds.\<close>

theorem prepare_power_up_order_witness:
  "(\<exists>tl. trace (hw (result_sys (nt35950_prepare (test_env [] []) linux_hdr (panel 2 0 False)))) =
          trace (hw (panel 2 0 False)) @ power_up_sequence @ tl) \<and>
   reset_line (hw (result_sys (nt35950_prepare (test_env [] []) linux_hdr (panel 2 0 False)))) = 1 \<and>
   map (vregs (nt (result_sys (nt35950_sharp_init_vregs (test_probe_env sharp_ls055d1sx04 0 1)
          (panel 2 0 False))))) [0, 5, 3, 4, 1, 2] =
     [''vddio'', ''dvdd'', ''avdd'', ''avee'', ''tvddio'', ''tavdd'']"
  using prepare_power_up_order [of "panel 2 0 False" "test_env [] []" linux_hdr
      "test_probe_env sharp_ls055d1sx04 0 1" "panel 2 0 False"]
  by (simp add: panel_def test_env_def)

text \<open>
  C6, as the code has it: when every transfer on endpoint 0 succeeds and both endpoint
  handles and the descriptor are valid, \<open>nt35950_on\<close> returns 0 after exactly
  \<open>on_sequence\<close>, which holds 19 transfers (15 buffer writes and 4 DCS commands), all on
  endpoint 0, and two waits of 120 ms; afterwards the low-power-mode flag is clear on
  both endpoints.
\<close>

theorem on_success_nineteen_transfers:
  assumes "\<forall>h c. 0 \<le> xfer_result E h 0 c"
    and "dsi (nt s) 0 = Some d0" and "dsi (nt s) 1 = Some d1" and "desc (nt s) = Some d"
  shows "\<exists>s'. nt35950_on E K s = Inr (0, s') \<and>
           trace (hw s') = trace (hw s) @ on_sequence (dispout_byte d) \<and>
           length (filter is_xfer (on_sequence (dispout_byte d))) = 19 \<and>
           map_option (\<lambda>e. mode_flags e AND MIPI_DSI_MODE_LPM K) (dsi (nt s') 0) = Some 0 \<and>
           map_option (\<lambda>e. mode_flags e AND MIPI_DSI_MODE_LPM K) (dsi (nt s') 1) = Some 0"
proof -
  from assms(1) have ok: "\<And>h c. \<not> xfer_result E h 0 c < 0" by (simp add: not_less)
  have n: "length (filter is_xfer (on_sequence (dispout_byte d))) = 19"
    by (simp add: on_sequence_def)
  show ?thesis
    unfolding on_ok [OF ok assms(2-4)] using n by (simp add: word_set_clear)
qed

theorem on_success_nineteen_transfers_witness:
  "\<exists>s'. nt35950_on (test_env [] []) linux_hdr (panel 2 0xE00 False) = Inr (0, s') \<and>
      trace (hw s') = trace (hw (panel 2 0xE00 False)) @ on_sequence (dispout_byte sharp_ls055d1sx04) \<and>
      length (filter is_xfer (on_sequence (dispout_byte sharp_ls055d1sx04))) = 19 \<and>
      map_option (\<lambda>e. mode_flags e AND MIPI_DSI_MODE_LPM linux_hdr) (dsi (nt s') 0) = Some 0 \<and>
      map_option (\<lambda>e. mode_flags e AND MIPI_DSI_MODE_LPM linux_hdr) (dsi (nt s') 1) = Some 0"
proof -
  have x: "\<forall>h c. 0 \<le> xfer_result (test_env [] []) h 0 c"
  proof (intro allI)
    fix h c show "0 \<le> xfer_result (test_env [] []) h 0 c"
      by (cases c) (simp_all add: test_env_def)
  qed
  have b: "dispout_byte (sharp_ls055d1sx04\<lparr>is_dual_dsi := True\<rparr>) = dispout_byte sharp_ls055d1sx04"
    by (simp add: dispout_byte_def sharp_ls055d1sx04_def)
  from on_success_nineteen_transfers [OF x, of "panel 2 0xE00 False" "endpoint 0xE00"
      "endpoint 0xE00" "sharp_ls055d1sx04\<lparr>is_dual_dsi := True\<rparr>" linux_hdr]
  show ?thesis
    unfolding b by (simp add: panel_def)
qed

text \<open>
  C6 as stated fails: on a dual-link panel where every transfer succeeds the on-script
  returns 0 after 19 transfers, not 13.
\<close>

theorem on_success_not_thirteen:
  "result_ret (nt35950_on (test_env [] []) linux_hdr (panel 2 0xE00 False)) = Some 0 \<and>
   length (filter is_xfer
     (trace (hw (result_sys (nt35950_on (test_env [] []) linux_hdr (panel 2 0xE00 False)))))) = 19 \<and>
   length (filter is_xfer
     (trace (hw (result_sys (nt35950_on (test_env [] []) linux_hdr (panel 2 0xE00 False)))))) \<noteq> 13"
  by (simp add: nt35950_on_def prim_defs script_defs test_env_def panel_def world0_def)

text \<open>
  C7, as the code has it. \<open>nt35950_on\<close> reads and writes the mode flags of both endpoint
  handles before its first transfer, so on an instance with a valid \<^verbatim>\<open>dsi[0]\<close> and a
  \<^verbatim>\<open>NULL\<close> \<^verbatim>\<open>dsi[1]\<close> it always dereferences the \<^verbatim>\<open>NULL\<close> handle, with no transfer
  made. \<open>nt35950_probe\<close> leaves \<^verbatim>\<open>dsi[1]\<close> \<^verbatim>\<open>NULL\<close> for a descriptor without the dual-link
  flag, and never sets \<open>prepared\<close>. On such an instance that is not prepared, for every
  environment: \<open>nt35950_prepare\<close> dereferences the \<^verbatim>\<open>NULL\<close> handle exactly when all six rail
  enables succeed, and otherwise returns a nonzero value without a fault; either way the
  panel is still not prepared, with \<^verbatim>\<open>dsi[0]\<close> valid and \<^verbatim>\<open>dsi[1]\<close> \<^verbatim>\<open>NULL\<close>; and
  \<open>nt35950_unprepare\<close>, before or after that prepare, returns 0 and changes nothing, so
  the off-script is never reached.
\<close>

theorem single_link_null_deref:
  assumes "dsi (nt s) 0 \<noteq> None" and "dsi (nt s) 1 = None"
  shows "is_fault (nt35950_on E K s) \<and>
         trace (hw (result_sys (nt35950_on E K s))) = trace (hw s) \<and>
         (\<not> prepared (nt s) \<longrightarrow>
            is_fault (nt35950_prepare E K s) = rails_come_up E (trace (hw s)) \<and>
            (rails_come_up E (trace (hw s)) \<or>
               (\<exists>r. result_ret (nt35950_prepare E K s) = Some r \<and> r \<noteq> 0)) \<and>
            \<not> prepared (nt (result_sys (nt35950_prepare E K s))) \<and>
            dsi (nt (result_sys (nt35950_prepare E K s))) 0 \<noteq> None \<and>
            dsi (nt (result_sys (nt35950_prepare E K s))) 1 = None \<and>
            nt35950_unprepare E' K s = Inr (0, s) \<and>
            nt35950_unprepare E' K (result_sys (nt35950_prepare E K s)) =
              Inr (0, result_sys (nt35950_prepare E K s))) \<and>
         (match_data P = Some d \<and> \<not> is_dual_dsi d \<longrightarrow>
            dsi (nt (result_sys (nt35950_probe P K dv w))) 1 = None \<and>
            \<not> prepared (nt (result_sys (nt35950_probe P K dv w))))"
proof -
  from assms obtain d0 where d0: "dsi (nt s) 0 = Some d0" by auto
  have 1: "is_fault (nt35950_on E K s) \<and> trace (hw (result_sys (nt35950_on E K s))) = trace (hw s)"
    by (simp add: on_single_link [OF d0 assms(2)])
  have 2: "is_fault (nt35950_prepare E K s) = rails_come_up E (trace (hw s)) \<and>
            (rails_come_up E (trace (hw s)) \<or>
               (\<exists>r. result_ret (nt35950_prepare E K s) = Some r \<and> r \<noteq> 0)) \<and>
            \<not> prepared (nt (result_sys (nt35950_prepare E K s))) \<and>
            dsi (nt (result_sys (nt35950_prepare E K s))) 0 \<noteq> None \<and>
            dsi (nt (result_sys (nt35950_prepare E K s))) 1 = None"
    if p: "\<not> prepared (nt s)"
  proof (cases "rails_come_up E (trace (hw s))")
    case True
    from prepare_rails_up [OF p True, of K] obtain S where
      S: "nt35950_prepare E K s =
       bindP (nt35950_on E K) (\<lambda>ret. if ret < 0 then
          bindP (dev_err ''Failed to initialize panel: %d'' [ret]) (\<lambda>_.
          bindP (regulator_bulk_disable NT35950_VREG_MAX) (\<lambda>_.
          retP ret)) else
        bindP (set_prepared True) (\<lambda>_.
        retP 0)) S" and n: "nt S = nt s"
      by blast
    from n d0 assms(2) have "dsi (nt S) 0 = Some d0" "dsi (nt S) 1 = None" by simp_all
    from on_single_link [OF this, of E K] True p n assms(2) show ?thesis
      unfolding S by (simp add: bindP_def)
  next
    case False
    from prepare_rails_down [OF p False, of K] obtain r s' where
      "nt35950_prepare E K s = Inr (r, s')" "r \<noteq> 0" "nt s' = nt s"
      by blast
    with False p d0 assms(2) show ?thesis by simp
  qed
  have 3: "nt35950_unprepare E' K t = Inr (0, t)" if "\<not> prepared (nt t)" for t
    using that by (simp add: nt35950_unprepare_def retP_def)
  have 4: "dsi (nt (result_sys (nt35950_probe P K dv w))) 1 = None"
    if "match_data P = Some d" and "\<not> is_dual_dsi d"
    using that by (rule probe_single_link)
  from 1 2 3 4 probe_not_prepared [of P K dv w] show ?thesis by blast
qed

text \<open>
  The single-link descriptor of the specification's scenario: probing it leaves
  \<^verbatim>\<open>dsi[1]\<close> \<^verbatim>\<open>NULL\<close> and the panel not prepared; the first prepare faults when the
  rails come up and does not when avee fails; the panel is not prepared afterwards and
  an unprepare returns 0 without a change.
\<close>

theorem single_link_null_deref_witness:
  "dsi (nt (result_sys (nt35950_probe
       (test_probe_env (sharp_ls055d1sx04\<lparr>is_dual_dsi := False\<rparr>) 0 1) linux_hdr (endpoint 0) world0))) 1 = None \<and>
   \<not> prepared (nt (result_sys (nt35950_probe
       (test_probe_env (sharp_ls055d1sx04\<lparr>is_dual_dsi := False\<rparr>) 0 1) linux_hdr (endpoint 0) world0))) \<and>
   is_fault (nt35950_on (test_env [] []) linux_hdr (panel 1 0xE00 False)) \<and>
   is_fault (nt35950_prepare (test_env [] []) linux_hdr (panel 1 0xE00 False)) \<and>
   \<not> is_fault (nt35950_prepare (test_env [] [4]) linux_hdr (panel 1 0xE00 False)) \<and>
   \<not> prepared (nt (result_sys (nt35950_prepare (test_env [] []) linux_hdr (panel 1 0xE00 False)))) \<and>
   nt35950_unprepare (test_env [] []) linux_hdr
       (result_sys (nt35950_prepare (test_env [] []) linux_hdr (panel 1 0xE00 False))) =
     Inr (0, result_sys (nt35950_prepare (test_env [] []) linux_hdr (panel 1 0xE00 False))) \<and>
   nt35950_unprepare (test_env [] []) linux_hdr
       (result_sys (nt35950_prepare (test_env [] [4]) linux_hdr (panel 1 0xE00 False))) =
     Inr (0, result_sys (nt35950_prepare (test_env [] [4]) linux_hdr (panel 1 0xE00 False)))"
  using single_link_null_deref [of "panel 1 0xE00 False" "test_env [] []" linux_hdr
      "test_env [] []" "test_probe_env (sharp_ls055d1sx04\<lparr>is_dual_dsi := False\<rparr>) 0 1"
      "sharp_ls055d1sx04\<lparr>is_dual_dsi := False\<rparr>" "endpoint 0" world0]
    single_link_null_deref [of "panel 1 0xE00 False" "test_env [] [4]" linux_hdr
      "test_env [] []" "test_probe_env (sharp_ls055d1sx04\<lparr>is_dual_dsi := False\<rparr>) 0 1"
      "sharp_ls055d1sx04\<lparr>is_dual_dsi := False\<rparr>" "endpoint 0" world0]
  by (simp add: panel_def world0_def test_probe_env_def test_env_def rails_come_up_def)

text \<open>
  C7 as stated fails: on a single-link instance that is not prepared (the only state a
  single-link instance can be in, since its prepare never completes),
  \<open>nt35950_unprepare\<close> returns 0 without a fault and without touching anything; and a
  prepare whose first rail enable fails returns that error without a fault.
\<close>

theorem single_link_calls_without_fault:
  "dsi (nt (panel 1 0xE00 False)) 1 = None \<and>
   \<not> is_fault (nt35950_unprepare (test_env [] []) linux_hdr (panel 1 0xE00 False)) \<and>
   result_ret (nt35950_unprepare (test_env [] []) linux_hdr (panel 1 0xE00 False)) = Some 0 \<and>
   \<not> is_fault (nt35950_prepare (test_env [] [0]) linux_hdr (panel 1 0xE00 False)) \<and>
   result_ret (nt35950_prepare (test_env [] [0]) linux_hdr (panel 1 0xE00 False)) = Some (- 22)"
  by (simp add: nt35950_unprepare_def nt35950_prepare_def prim_defs fixture_defs)

text \<open>
  C8, as the code has it: after a successful \<open>nt35950_on\<close> followed by a successful
  \<open>nt35950_off\<close> the low-power-mode flag is set on both endpoints and every other field
  of the endpoints is as before; so the flag has its earlier value on an endpoint exactly
  if it was set there before the on-script (as \<open>nt35950_probe\<close> leaves it).
\<close>

theorem on_off_leaves_lpm_set:
  assumes on: "nt35950_on E K s = Inr (0, s1)" and off: "nt35950_off E K s1 = Inr (0, s2)"
    and d: "dsi (nt s) 0 = Some d0" "dsi (nt s) 1 = Some d1"
  shows "dsi (nt s2) 0 = Some (d0\<lparr>mode_flags := mode_flags d0 OR MIPI_DSI_MODE_LPM K\<rparr>) \<and>
         dsi (nt s2) 1 = Some (d1\<lparr>mode_flags := mode_flags d1 OR MIPI_DSI_MODE_LPM K\<rparr>) \<and>
         ((dsi (nt s2) 0 = dsi (nt s) 0) =
            (mode_flags d0 AND MIPI_DSI_MODE_LPM K = MIPI_DSI_MODE_LPM K)) \<and>
         ((dsi (nt s2) 1 = dsi (nt s) 1) =
            (mode_flags d1 AND MIPI_DSI_MODE_LPM K = MIPI_DSI_MODE_LPM K))"
proof -
  from on d have s1:
    "dsi (nt s1) 0 = Some (d0\<lparr>mode_flags :=
        (mode_flags d0 OR MIPI_DSI_MODE_LPM K) AND NOT (MIPI_DSI_MODE_LPM K)\<rparr>)"
    "dsi (nt s1) 1 = Some (d1\<lparr>mode_flags :=
        (mode_flags d1 OR MIPI_DSI_MODE_LPM K) AND NOT (MIPI_DSI_MODE_LPM K)\<rparr>)"
    by (auto simp: nt35950_on_def prim_defs script_defs split: if_splits option.splits)
  from off s1 have s2:
    "dsi (nt s2) 0 = Some (d0\<lparr>mode_flags := mode_flags d0 OR MIPI_DSI_MODE_LPM K\<rparr>)"
    "dsi (nt s2) 1 = Some (d1\<lparr>mode_flags := mode_flags d1 OR MIPI_DSI_MODE_LPM K\<rparr>)"
    by (auto simp: nt35950_off_def prim_defs word_set_clear_set split: if_splits)
  have w: "(f OR m = f) = (f AND m = m)" for f m :: ulong
    by (metis word_ao_absorbs(4) word_bw_comms(1) word_ao_absorbs(3) word_bw_comms(2))
  have r: "(e\<lparr>mode_flags := x\<rparr> = e) = (x = mode_flags e)" for e :: mipi_dsi_device and x
    by (cases e) auto
  from s2 d show ?thesis
    by (simp add: r w)
qed

theorem on_off_leaves_lpm_set_witness:
  "map_option mode_flags (dsi (nt (panel 2 0xE00 False)) 0) = Some 0xE00 \<and>
   map_option mode_flags (dsi (nt (result_sys (nt35950_off (test_env [] []) linux_hdr
      (result_sys (nt35950_on (test_env [] []) linux_hdr (panel 2 0xE00 False))))) ) 0) = Some 0xE00 \<and>
   map_option mode_flags (dsi (nt (result_sys (nt35950_off (test_env [] []) linux_hdr
      (result_sys (nt35950_on (test_env [] []) linux_hdr (panel 2 0xE00 False))))) ) 1) = Some 0xE00"
proof -
  let ?E = "test_env [] []" and ?s = "panel 2 0xE00 False"
  let ?s1 = "result_sys (nt35950_on ?E linux_hdr ?s)"
  let ?s2 = "result_sys (nt35950_off ?E linux_hdr ?s1)"
  have ok: "\<And>h c. \<not> xfer_result ?E h 0 c < 0"
    by (simp add: not_less test_env_xfer_ok)
  have d: "dsi (nt ?s) 0 = Some (endpoint 0xE00)" "dsi (nt ?s) 1 = Some (endpoint 0xE00)"
    "desc (nt ?s) = Some (sharp_ls055d1sx04\<lparr>is_dual_dsi := True\<rparr>)"
    by (simp_all add: panel_def)
  have on: "nt35950_on ?E linux_hdr ?s = Inr (0, ?s1)"
    by (simp add: on_ok [OF ok d])
  have d1: "dsi (nt ?s1) 0 \<noteq> None" "dsi (nt ?s1) 1 \<noteq> None"
    by (simp_all add: on_ok [OF ok d])
  then obtain e0 e1 where e: "dsi (nt ?s1) 0 = Some e0" "dsi (nt ?s1) 1 = Some e1" by auto
  have off: "nt35950_off ?E linux_hdr ?s1 = Inr (0, ?s2)"
    by (simp add: off_ok [OF ok e])
  from on_off_leaves_lpm_set [OF on off d(1,2)] show ?thesis
    by (simp add: panel_def endpoint_def linux_hdr_def BIT_def)
qed

text \<open>
  C8 as stated fails: with the flag clear on both endpoints before the on-script, both
  scripts succeed and the flag is set afterwards.
\<close>

theorem on_off_lpm_not_restored:
  "result_ret (nt35950_on (test_env [] []) linux_hdr (panel 2 0 False)) = Some 0 \<and>
   result_ret (nt35950_off (test_env [] []) linux_hdr
      (result_sys (nt35950_on (test_env [] []) linux_hdr (panel 2 0 False)))) = Some 0 \<and>
   map_option mode_flags (dsi (nt (panel 2 0 False)) 0) = Some 0 \<and>
   map_option mode_flags (dsi (nt (result_sys (nt35950_off (test_env [] []) linux_hdr
      (result_sys (nt35950_on (test_env [] []) linux_hdr (panel 2 0 False))))) ) 0) = Some 0x800 \<and>
   map_option mode_flags (dsi (nt (result_sys (nt35950_off (test_env [] []) linux_hdr
      (result_sys (nt35950_on (test_env [] []) linux_hdr (panel 2 0 False))))) ) 1) = Some 0x800"
  by (simp add: nt35950_on_def nt35950_off_def prim_defs script_defs fixture_defs)

text \<open>
  C9: for every page number (0..7 included), \<open>nt35950_set_cmd2_page\<close> on a valid primary
  endpoint performs exactly one transfer, a buffer write of the six bytes
  F0 55 AA 52 08 page, addressed to endpoint 0; nothing else changes and the transport's
  answer is returned.
\<close>

theorem set_cmd2_page_single_write:
  assumes "dsi (nt s) 0 \<noteq> None"
  shows "nt35950_set_cmd2_page E page s =
           Inr (xfer_result E (trace (hw s)) 0 (Write_buffer [0xF0, 0x55, 0xAA, 0x52, 0x08, page]),
                s\<lparr>hw := (hw s)\<lparr>trace := trace (hw s) @
                     [Dsi_xfer 0 (Write_buffer [0xF0, 0x55, 0xAA, 0x52, 0x08, page])]\<rparr>\<rparr>)"
  using assms
  by (auto simp: nt35950_set_cmd2_page_def mipi_dsi_dcs_write_buffer_def mipi_dsi_xfer_def
      log_event_def MCS_CMD_MAUCCTR_def)

text \<open>Page 7 on a single-link panel: one write of six bytes, answered with 6.\<close>

theorem set_cmd2_page_single_write_witness:
  "nt35950_set_cmd2_page (test_env [] []) 7 (panel 1 0 False) =
     Inr (6, (panel 1 0 False)\<lparr>hw := (hw (panel 1 0 False))\<lparr>trace :=
                [Dsi_xfer 0 (Write_buffer [0xF0, 0x55, 0xAA, 0x52, 0x08, 7])]\<rparr>\<rparr>)"
  using set_cmd2_page_single_write [of "panel 1 0 False" "test_env [] []" 7]
  by (simp add: fixture_defs)

text \<open>
  C10, as the code has it: a failure of the bulk acquisition of the rails or of a
  voltage-range check does not make construction fail. \<open>nt35950_probe\<close> at most logs the
  value \<open>nt35950_sharp_init_vregs\<close> returns and carries on; what it returns is the same
  whatever the bulk acquisition and the voltage checks answer.
\<close>

theorem probe_ignores_regulator_outcome:
  "result_ret (nt35950_probe (P\<lparr>bulk_get_result := b, supported_voltage := v\<rparr>) K dv w) =
   result_ret (nt35950_probe P K dv w)"
proof (cases "kzalloc_fails P")
  case True
  then show ?thesis by (simp add: nt35950_probe_def)
next
  case False
  let ?P = "P\<lparr>bulk_get_result := b, supported_voltage := v\<rparr>"
  let ?s = "\<lparr>nt = nt_zero, hw = w\<rparr>"
  let ?msg = "''Regulator init failure: %d -- NO FAILURE: DEVELOPMENT MODE''"
  from init_vregs_nt [of P ?s] obtain r s1 where
    1: "nt35950_sharp_init_vregs P ?s = Inr (r, s1)"
    and n1: "nt s1 = (nt ?s)\<lparr>vregs := (vregs (nt ?s))(0 := ''vddio'', 1 := ''tvddio'',
               2 := ''tavdd'', 3 := ''avdd'', 4 := ''avee'', 5 := ''dvdd'')\<rparr>"
    by blast
  from init_vregs_nt [of ?P ?s] obtain r' s1' where
    2: "nt35950_sharp_init_vregs ?P ?s = Inr (r', s1')"
    and n2: "nt s1' = (nt ?s)\<lparr>vregs := (vregs (nt ?s))(0 := ''vddio'', 1 := ''tvddio'',
               2 := ''tavdd'', 3 := ''avdd'', 4 := ''avee'', 5 := ''dvdd'')\<rparr>"
    by blast
  from n1 n2 have n: "nt s1' = nt s1" by simp
  from False have a: "nt35950_probe ?P K dv w =
      bindP (if r' \<noteq> 0 \<and> r' \<noteq> - EPROBE_DEFER K then dev_err ?msg [r'] else retP ())
        (\<lambda>_. probe_resolve P K dv) s1'"
    by (simp add: nt35950_probe_def probe_resolve_env bindP_Inr [of "nt35950_sharp_init_vregs ?P" ?s r' s1', OF 2])
  from False have b: "nt35950_probe P K dv w =
      bindP (if r \<noteq> 0 \<and> r \<noteq> - EPROBE_DEFER K then dev_err ?msg [r] else retP ())
        (\<lambda>_. probe_resolve P K dv) s1"
    by (simp add: nt35950_probe_def bindP_Inr [of "nt35950_sharp_init_vregs P" ?s r s1, OF 1])
  show ?thesis
    unfolding a b by (rule probe_after_init [OF n])
qed

text \<open>
  C10 as stated fails: the bulk acquisition of the rails fails with \<^verbatim>\<open>-ENODEV\<close>, or
  every voltage check answers "unsupported", and the probe of the supported panel still
  returns 0.
\<close>

theorem probe_succeeds_despite_regulator_failure:
  "result_ret (nt35950_probe (test_probe_env sharp_ls055d1sx04 (- 19) 1) linux_hdr (endpoint 0) world0) = Some 0 \<and>
   result_ret (nt35950_probe (test_probe_env sharp_ls055d1sx04 0 0) linux_hdr (endpoint 0) world0) = Some 0"
  by (simp add: nt35950_probe_def probe_resolve_def probe_finish_def readP_def
      nt35950_sharp_init_vregs_def set_vreg_supply_def regulator_is_supported_voltage_def
      set_desc_def set_dsi_def nt_zero_def prim_defs fixture_defs test_probe_env_def
      sharp_ls055d1sx04_def probe_attach.simps)

end
